theory Spec2Isabelle
  imports
    Main
    "HOL-Library.Sublist"
    "HOL-Library.AList"
    "HOL-Library.Char_ord"
    "HOL-Library.List_Lexorder"
    "HOL-Library.Product_Lexorder"
begin

section \<open>Python values, exceptions and the file system\<close>

text \<open>
  Strings are \<^typ>\<open>string\<close>: the UTF-8 bytes of the Python \<open>str\<close>. For ASCII text
  one \<^typ>\<open>char\<close> is one Python character; character counts, slices and \<open>lower()\<close>
  of non-ASCII text are outside what the model computes exactly. Whitespace is matched
  as Python does on every text.

  A value produced by \<open>json.load\<close> or \<open>tomllib.load\<close> is a \<open>pyval\<close>. A \<open>dict\<close> keeps
  its insertion order, so it is an association list. Floating point numbers are not
  modelled: the code never computes with a number it reads.
\<close>

datatype pyval =
    PNone
  | PBool bool
  | PInt int
  | PStr string
  | PList "pyval list"
  | PDict "(string \<times> pyval) list"

text \<open>
  The exceptions the two programs can meet. \<open>IOError\<close> is Python's alias of \<open>OSError\<close>;
  \<open>FileNotFoundError\<close>, \<open>PermissionError\<close>, \<open>IsADirectoryError\<close>,
  \<open>NotADirectoryError\<close> and \<open>FileExistsError\<close> are subclasses of it. \<open>JSONDecodeError\<close>, \<open>TOMLDecodeError\<close> and
  \<open>UnicodeDecodeError\<close> are subclasses of \<open>ValueError\<close>, not of \<open>OSError\<close>.
\<close>

datatype py_exc =
    OSError
  | FileNotFoundError string
  | PermissionError
  | IsADirectoryError
  | NotADirectoryError
  | FileExistsError
  | JSONDecodeError
  | TOMLDecodeError
  | UnicodeDecodeError
  | ImportError
  | AttributeError
  | TypeError
  | KeyError
  | RuntimeError string

fun is_IOError :: "py_exc \<Rightarrow> bool" where
  "is_IOError OSError = True"
| "is_IOError (FileNotFoundError _) = True"
| "is_IOError PermissionError = True"
| "is_IOError IsADirectoryError = True"
| "is_IOError NotADirectoryError = True"
| "is_IOError FileExistsError = True"
| "is_IOError _ = False"

text \<open>
  What reading a file gives: the process may not open it (\<open>PermissionError\<close>), its bytes
  may not decode as text (\<open>UnicodeDecodeError\<close>), or it has a text.
  A directory has a name, a flag telling whether the process may list it
  (\<open>iterdir\<close> raises \<open>PermissionError\<close> otherwise) and its entries in the order the
  operating system returns them.
\<close>

datatype fdata = NoAccess | BadBytes | Text string

datatype fsnode =
    File string fdata
  | Dir string bool "fsnode list"

fun node_name :: "fsnode \<Rightarrow> string" where
  "node_name (File n _) = n"
| "node_name (Dir n _ _) = n"

fun is_dir :: "fsnode \<Rightarrow> bool" where
  "is_dir (File _ _) = False"
| "is_dir (Dir _ _ _) = True"

text \<open>
  The repository root is a directory: \<open>repo_path.name\<close>, whether it can be listed,
  and its entries.
\<close>

record repository =
  repo_name :: string
  repo_listable :: bool
  repo_entries :: "fsnode list"

text \<open>\<open>path / name\<close> followed by \<open>exists()\<close>: the entry of that name, if any.\<close>

definition child :: "fsnode list \<Rightarrow> string \<Rightarrow> fsnode option" where
  "child entries n = find (\<lambda>e. node_name e = n) entries"

fun entries_of :: "fsnode option \<Rightarrow> fsnode list" where
  "entries_of (Some (Dir _ _ es)) = es"
| "entries_of _ = []"

text \<open>
  \<open>open(p)\<close> and \<open>read_text()\<close> on an existing path: a directory raises
  \<open>IsADirectoryError\<close>.
\<close>

fun read_text :: "fsnode \<Rightarrow> py_exc + string" where
  "read_text (Dir _ _ _) = Inl IsADirectoryError"
| "read_text (File _ NoAccess) = Inl PermissionError"
| "read_text (File _ BadBytes) = Inl UnicodeDecodeError"
| "read_text (File _ (Text s)) = Inr s"

text \<open>
  The Python runtime the generator runs on. \<open>json_loads\<close> and \<open>toml_loads\<close> are the
  parsers (\<open>None\<close>: the text is malformed and the parser raises its decode error),
  \<open>tomllib_available\<close> tells whether \<open>import tomllib\<close> succeeds (Python 3.11 and
  later), \<open>json_dumps\<close> is \<open>json.dumps(value, indent=2)\<close>, \<open>py_str\<close> is the
  builtin \<open>str()\<close> on values that are not strings, and \<open>hash_seed\<close> is the per-process seed of string hashing, which fixes the iteration
  order of a \<open>set\<close> of strings.
\<close>

record runtime =
  json_loads :: "string \<Rightarrow> pyval option"
  toml_loads :: "string \<Rightarrow> pyval option"
  tomllib_available :: bool
  json_dumps :: "pyval \<Rightarrow> string"
  py_str :: "pyval \<Rightarrow> string"
  hash_seed :: nat

section \<open>Project type detection\<close>

definition PROJECT_SIGNATURES :: "(string \<times> string list) list" where
  "PROJECT_SIGNATURES =
    [(''python'', [''pyproject.toml'', ''setup.py'', ''requirements.txt'', ''Pipfile'']),
     (''node'', [''package.json'', ''package-lock.json'', ''yarn.lock'', ''pnpm-lock.yaml'']),
     (''rust'', [''Cargo.toml'', ''Cargo.lock'']),
     (''go'', [''go.mod'', ''go.sum'']),
     (''ruby'', [''Gemfile'', ''Gemfile.lock'', ''*.gemspec'']),
     (''java'', [''pom.xml'', ''build.gradle'', ''build.gradle.kts'']),
     (''dotnet'', [''*.csproj'', ''*.sln'', ''*.fsproj'']),
     (''terraform'', [''*.tf'', ''terraform.tfstate'']),
     (''docker'', [''Dockerfile'', ''docker-compose.yml'', ''docker-compose.yaml'']),
     (''k8s'', [''*.yaml'', ''*.yml''])]"

text \<open>
  \<open>f.name for f in repo_path.rglob("*") if f.is_file()\<close>: the names of all files
  below the root. A directory that cannot be listed contributes nothing.
\<close>

fun rglob_files :: "fsnode \<Rightarrow> string list" where
  "rglob_files (File n _) = [n]"
| "rglob_files (Dir _ listable es) =
     (if listable then concat (map rglob_files es) else [])"

definition file_names :: "repository \<Rightarrow> string list" where
  "file_names r =
     (if repo_listable r then concat (map rglob_files (repo_entries r)) else [])"

text \<open>One signature against the set of file names, as the body of the inner loop tests it.\<close>

definition sig_matches :: "string list \<Rightarrow> string \<Rightarrow> bool" where
  "sig_matches files sig =
     (if CHR ''*'' \<in> set sig
      then (let pattern = filter (\<lambda>c. c \<noteq> CHR ''*'') sig
            in list_ex (\<lambda>f. suffix pattern f) files)
      else sig \<in> set files)"

text \<open>The inner loop: it stops (\<open>break\<close>) at the first signature that matches.\<close>

fun any_signature :: "string list \<Rightarrow> string list \<Rightarrow> bool" where
  "any_signature files [] = False"
| "any_signature files (sig # sigs) =
     (if sig_matches files sig then True else any_signature files sigs)"

text \<open>The outer loop over \<open>PROJECT_SIGNATURES.items()\<close>, appending to \<open>types\<close>.\<close>

fun collect_types :: "string list \<Rightarrow> (string \<times> string list) list \<Rightarrow> string list \<Rightarrow> string list" where
  "collect_types files [] types = types"
| "collect_types files ((proj_type, signatures) # rest) types =
     collect_types files rest
       (if any_signature files signatures then types @ [proj_type] else types)"

text \<open>
  \<open>list(set(types))\<close>: the distinct elements in the iteration order of the set. String
  hashes are salted per process, so the order is a permutation that the hash seed
  selects; \<open>nth_perm\<close> enumerates the permutations of a list by a number.
\<close>

function nth_perm :: "nat \<Rightarrow> 'a list \<Rightarrow> 'a list" where
  "nth_perm n xs =
     (if xs = [] then []
      else (let i = n mod length xs
            in xs ! i # nth_perm (n div length xs) (take i xs @ drop (Suc i) xs)))"
  by pat_completeness auto
termination
proof (relation "measure (\<lambda>(n, xs). length xs)")
  show "wf (measure (\<lambda>(n :: nat, xs :: 'a list). length xs))" by simp
next
  fix n :: nat and xs :: "'a list" and i :: nat
  assume ne: "xs \<noteq> []" and i: "i = n mod length xs"
  from ne have "i < length xs" using i by simp
  then show "((n div length xs, take i xs @ drop (Suc i) xs), (n, xs))
      \<in> measure (\<lambda>(n, xs). length xs)" by simp
qed

definition list_of_set :: "nat \<Rightarrow> string list \<Rightarrow> string list" where
  "list_of_set seed xs = nth_perm seed (remdups xs)"

definition detect_project_type :: "runtime \<Rightarrow> repository \<Rightarrow> string list" where
  "detect_project_type rt r =
     (let types = collect_types (file_names r) PROJECT_SIGNATURES [];
          result = list_of_set (hash_seed rt) types
      in if result = [] then [''generic''] else result)"

section \<open>Metadata extraction\<close>

text \<open>Sequencing of calls that may raise: the first exception ends the computation.\<close>

definition bindE :: "'e + 'a \<Rightarrow> ('a \<Rightarrow> 'e + 'b) \<Rightarrow> 'e + 'b" where
  "bindE m f = (case m of Inl e \<Rightarrow> Inl e | Inr v \<Rightarrow> f v)"

text \<open>
  \<open>d.get(key, default)\<close>: only a \<open>dict\<close> has the method; on any other value the
  attribute lookup raises \<open>AttributeError\<close>.
\<close>

fun py_get :: "pyval \<Rightarrow> string \<Rightarrow> pyval \<Rightarrow> py_exc + pyval" where
  "py_get (PDict kvs) k d = Inr (case map_of kvs k of Some v \<Rightarrow> v | None \<Rightarrow> d)"
| "py_get _ k d = Inl AttributeError"

text \<open>\<open>list(d.keys())\<close>, the keys in insertion order.\<close>

fun py_keys :: "pyval \<Rightarrow> py_exc + string list" where
  "py_keys (PDict kvs) = Inr (map fst kvs)"
| "py_keys _ = Inl AttributeError"

text \<open>
  The whitespace class \<open>\s\<close> of a pattern on \<open>str\<close>, which is also what
  \<open>str.strip()\<close> removes: the code points for which \<open>str.isspace()\<close> holds, U+0009 to
  U+000D, U+001C to U+0020, U+0085, U+00A0, U+1680, U+2000 to U+200A, U+2028, U+2029,
  U+202F, U+205F and U+3000, each as its UTF-8 bytes. A text that was read is valid
  UTF-8 (otherwise the read raises \<open>UnicodeDecodeError\<close>), so one of these byte
  sequences at the head or at the end of a text is that code point.
\<close>

definition whitespace :: "string list" where
  "whitespace =
    [[CHR 0x09], [CHR 0x0A], [CHR 0x0B], [CHR 0x0C], [CHR 0x0D], [CHR 0x1C], [CHR 0x1D],
     [CHR 0x1E], [CHR 0x1F], [CHR 0x20], [CHR 0xC2, CHR 0x85], [CHR 0xC2, CHR 0xA0],
     [CHR 0xE1, CHR 0x9A, CHR 0x80], [CHR 0xE2, CHR 0x80, CHR 0x80],
     [CHR 0xE2, CHR 0x80, CHR 0x81], [CHR 0xE2, CHR 0x80, CHR 0x82],
     [CHR 0xE2, CHR 0x80, CHR 0x83], [CHR 0xE2, CHR 0x80, CHR 0x84],
     [CHR 0xE2, CHR 0x80, CHR 0x85], [CHR 0xE2, CHR 0x80, CHR 0x86],
     [CHR 0xE2, CHR 0x80, CHR 0x87], [CHR 0xE2, CHR 0x80, CHR 0x88],
     [CHR 0xE2, CHR 0x80, CHR 0x89], [CHR 0xE2, CHR 0x80, CHR 0x8A],
     [CHR 0xE2, CHR 0x80, CHR 0xA8], [CHR 0xE2, CHR 0x80, CHR 0xA9],
     [CHR 0xE2, CHR 0x80, CHR 0xAF], [CHR 0xE2, CHR 0x81, CHR 0x9F],
     [CHR 0xE3, CHR 0x80, CHR 0x80]]"

text \<open>
  The number of bytes of the whitespace code point at the head, or at the end, of a
  text; 0 when there is none.
\<close>

definition lead_space :: "string \<Rightarrow> nat" where
  "lead_space s = (case find (\<lambda>w. prefix w s) whitespace of None \<Rightarrow> 0 | Some w \<Rightarrow> length w)"

definition trail_space :: "string \<Rightarrow> nat" where
  "trail_space s = (case find (\<lambda>w. suffix w s) whitespace of None \<Rightarrow> 0 | Some w \<Rightarrow> length w)"

lemma lead_space_Nil [simp]: "lead_space [] = 0"
  by (simp add: lead_space_def whitespace_def)

lemma trail_space_Nil [simp]: "trail_space [] = 0"
  by (simp add: trail_space_def whitespace_def)

text \<open>\<open>\s*\<close> at the head of a text (\<open>str.lstrip()\<close>), and \<open>str.rstrip()\<close>.\<close>

function lstrip :: "string \<Rightarrow> string" where
  "lstrip s = (if lead_space s = 0 then s else lstrip (drop (lead_space s) s))"
  by pat_completeness auto
termination
proof (relation "measure length")
  show "wf (measure (length :: string \<Rightarrow> nat))" by simp
next
  fix s :: string
  assume a: "lead_space s \<noteq> 0"
  then have "s \<noteq> []" by auto
  with a show "(drop (lead_space s) s, s) \<in> measure length" by simp
qed

declare lstrip.simps [simp del]

function rstrip :: "string \<Rightarrow> string" where
  "rstrip s = (if trail_space s = 0 then s else rstrip (take (length s - trail_space s) s))"
  by pat_completeness auto
termination
proof (relation "measure length")
  show "wf (measure (length :: string \<Rightarrow> nat))" by simp
next
  fix s :: string
  assume a: "trail_space s \<noteq> 0"
  then have "s \<noteq> []" by auto
  with a show "(take (length s - trail_space s) s, s) \<in> measure length" by simp
qed

declare rstrip.simps [simp del]

text \<open>
  \<open>re.search(key + r'\s*=\s*"([^"]+)"', content)\<close>, returning \<open>group(1)\<close> of the
  leftmost match. At one start position the match is unique: \<open>\s*\<close> is followed by
  a character that is no whitespace, and \<open>[^"]+\<close> by the quote it excludes.
\<close>

definition match_key_at :: "string \<Rightarrow> string \<Rightarrow> string option" where
  "match_key_at key s =
     (if prefix key s
      then (case lstrip (drop (length key) s) of
              [] \<Rightarrow> None
            | c # r2 \<Rightarrow>
                if c \<noteq> CHR ''='' then None
                else (case lstrip r2 of
                        [] \<Rightarrow> None
                      | q # r4 \<Rightarrow>
                          if q \<noteq> CHR 0x22 then None
                          else (let v = takeWhile (\<lambda>x. x \<noteq> CHR 0x22) r4;
                                    rest = dropWhile (\<lambda>x. x \<noteq> CHR 0x22) r4
                                in if v \<noteq> [] \<and> rest \<noteq> [] then Some v else None)))
      else None)"

fun re_search_key :: "string \<Rightarrow> string \<Rightarrow> string option" where
  "re_search_key key [] = match_key_at key []"
| "re_search_key key (c # cs) =
     (case match_key_at key (c # cs) of
        Some v \<Rightarrow> Some v
      | None \<Rightarrow> re_search_key key cs)"

record metadata =
  md_name :: pyval
  md_description :: pyval
  md_version :: pyval
  md_scripts :: pyval
  md_dependencies :: pyval

definition initial_metadata :: "repository \<Rightarrow> metadata" where
  "initial_metadata r =
     \<lparr>md_name = PStr (repo_name r), md_description = PStr [], md_version = PStr [],
      md_scripts = PDict [], md_dependencies = PList []\<rparr>"

text \<open>The body of the \<open>try\<close> for \<open>package.json\<close>.\<close>

definition package_json_body :: "runtime \<Rightarrow> fsnode \<Rightarrow> metadata \<Rightarrow> py_exc + metadata" where
  "package_json_body rt f m =
     bindE (read_text f) (\<lambda>text.
       case json_loads rt text of
         None \<Rightarrow> Inl JSONDecodeError
       | Some pkg \<Rightarrow>
           bindE (py_get pkg ''name'' (md_name m)) (\<lambda>name.
           bindE (py_get pkg ''description'' (PStr [])) (\<lambda>description.
           bindE (py_get pkg ''version'' (PStr [])) (\<lambda>version.
           bindE (py_get pkg ''scripts'' (PDict [])) (\<lambda>scripts.
           bindE (py_get pkg ''dependencies'' (PDict [])) (\<lambda>deps.
           bindE (py_keys deps) (\<lambda>ks.
             Inr \<lparr>md_name = name, md_description = description, md_version = version,
                  md_scripts = scripts, md_dependencies = PList (map PStr ks)\<rparr>)))))))"

text \<open>\<open>except (json.JSONDecodeError, IOError): pass\<close>\<close>

definition from_package_json :: "runtime \<Rightarrow> repository \<Rightarrow> metadata \<Rightarrow> py_exc + metadata" where
  "from_package_json rt r m =
     (case child (repo_entries r) ''package.json'' of
        None \<Rightarrow> Inr m
      | Some f \<Rightarrow>
          (case package_json_body rt f m of
             Inl e \<Rightarrow> if e = JSONDecodeError \<or> is_IOError e then Inr m else Inl e
           | Inr m' \<Rightarrow> Inr m'))"

text \<open>
  The two regular expression searches shared by the \<open>pyproject.toml\<close> fallback and
  \<open>Cargo.toml\<close>: each sets its field only when it matches.
\<close>

definition regex_fields :: "string \<Rightarrow> metadata \<Rightarrow> metadata" where
  "regex_fields content m =
     (let name_match = re_search_key ''name'' content;
          desc_match = re_search_key ''description'' content;
          m1 = (case name_match of Some n \<Rightarrow> m\<lparr>md_name := PStr n\<rparr> | None \<Rightarrow> m)
      in (case desc_match of Some d \<Rightarrow> m1\<lparr>md_description := PStr d\<rparr> | None \<Rightarrow> m1))"

text \<open>\<open>try: content = path.read_text(); ... except IOError: pass\<close>\<close>

definition regex_source :: "fsnode \<Rightarrow> metadata \<Rightarrow> py_exc + metadata" where
  "regex_source f m =
     (case read_text f of
        Inl e \<Rightarrow> if is_IOError e then Inr m else Inl e
      | Inr content \<Rightarrow> Inr (regex_fields content m))"

text \<open>
  The body of the outer \<open>try\<close> for \<open>pyproject.toml\<close>: the import, the binary read and
  \<open>tomllib.load\<close>, then the assignments.
\<close>

definition pyproject_body :: "runtime \<Rightarrow> fsnode \<Rightarrow> metadata \<Rightarrow> py_exc + metadata" where
  "pyproject_body rt f m =
     (if \<not> tomllib_available rt then Inl ImportError
      else bindE (read_text f) (\<lambda>text.
        case toml_loads rt text of
          None \<Rightarrow> Inl TOMLDecodeError
        | Some pyproj \<Rightarrow>
            bindE (py_get pyproj ''project'' (PDict [])) (\<lambda>project.
            bindE (py_get project ''name'' (md_name m)) (\<lambda>name.
            bindE (py_get project ''description'' (PStr [])) (\<lambda>description.
            bindE (py_get project ''version'' (PStr [])) (\<lambda>version.
            bindE (py_get project ''dependencies'' (PList [])) (\<lambda>deps.
              Inr (m\<lparr>md_name := name, md_description := description,
                     md_version := version, md_dependencies := deps\<rparr>))))))))"

text \<open>\<open>except (ImportError, IOError):\<close> the regular expression fallback.\<close>

definition from_pyproject :: "runtime \<Rightarrow> repository \<Rightarrow> metadata \<Rightarrow> py_exc + metadata" where
  "from_pyproject rt r m =
     (case child (repo_entries r) ''pyproject.toml'' of
        None \<Rightarrow> Inr m
      | Some f \<Rightarrow>
          (case pyproject_body rt f m of
             Inl e \<Rightarrow> if e = ImportError \<or> is_IOError e then regex_source f m else Inl e
           | Inr m' \<Rightarrow> Inr m'))"

definition from_cargo :: "repository \<Rightarrow> metadata \<Rightarrow> py_exc + metadata" where
  "from_cargo r m =
     (case child (repo_entries r) ''Cargo.toml'' of
        None \<Rightarrow> Inr m
      | Some f \<Rightarrow> regex_source f m)"

text \<open>The argument \<open>project_types\<close> is not used by the source either.\<close>

definition get_project_metadata :: "runtime \<Rightarrow> repository \<Rightarrow> string list \<Rightarrow> py_exc + metadata" where
  "get_project_metadata rt r project_types =
     bindE (from_package_json rt r (initial_metadata r)) (\<lambda>m1.
     bindE (from_pyproject rt r m1) (\<lambda>m2.
       from_cargo r m2))"

section \<open>README and key documents\<close>

text \<open>
  The loop of \<open>get_readme_content\<close>: the first README that exists and can be read,
  cut to 10000 characters. An \<open>IOError\<close> moves on to the next name.
\<close>

fun readme_loop :: "fsnode list \<Rightarrow> string list \<Rightarrow> py_exc + string" where
  "readme_loop entries [] = Inr []"
| "readme_loop entries (readme_name # names) =
     (case child entries readme_name of
        None \<Rightarrow> readme_loop entries names
      | Some f \<Rightarrow>
          (case read_text f of
             Inr s \<Rightarrow> Inr (take 10000 s)
           | Inl e \<Rightarrow> if is_IOError e then readme_loop entries names else Inl e))"

definition get_readme_content :: "repository \<Rightarrow> py_exc + string" where
  "get_readme_content r =
     readme_loop (repo_entries r) [''README.md'', ''README.rst'', ''README.txt'', ''README'']"

definition DOC_FILES :: "string list list" where
  "DOC_FILES =
    [[''README.md''], [''README.rst''], [''README.txt''], [''README''],
     [''CONTRIBUTING.md''], [''CONTRIBUTING.rst''],
     [''ARCHITECTURE.md''], [''DESIGN.md''],
     [''API.md''], [''API.rst''],
     [''CHANGELOG.md''], [''CHANGELOG.rst''], [''CHANGELOG''],
     [''docs'', ''README.md''], [''docs'', ''index.md'']]"

text \<open>\<open>repo_path / doc_file\<close>, a path of one or two components here.\<close>

fun lookup_path :: "fsnode list \<Rightarrow> string list \<Rightarrow> fsnode option" where
  "lookup_path entries [] = None"
| "lookup_path entries [n] = child entries n"
| "lookup_path entries (n # ns) = lookup_path (entries_of (child entries n)) ns"

text \<open>
  The loop of \<open>extract_key_files\<close>. The dictionary is keyed by the document's path;
  a later assignment to a key that is present replaces its value in place.
\<close>

fun key_files_loop ::
  "fsnode list \<Rightarrow> string list list \<Rightarrow> (string list \<times> string) list
     \<Rightarrow> py_exc + (string list \<times> string) list" where
  "key_files_loop entries [] key_files = Inr key_files"
| "key_files_loop entries (doc_file # docs) key_files =
     (case lookup_path entries doc_file of
        None \<Rightarrow> key_files_loop entries docs key_files
      | Some f \<Rightarrow>
          (case read_text f of
             Inr content \<Rightarrow>
               key_files_loop entries docs
                 (if length content < 50000 then key_files @ [(doc_file, content)]
                  else key_files)
           | Inl e \<Rightarrow>
               if is_IOError e then key_files_loop entries docs key_files else Inl e))"

definition extract_key_files :: "repository \<Rightarrow> py_exc + (string list \<times> string) list" where
  "extract_key_files r = key_files_loop (repo_entries r) DOC_FILES []"

section \<open>Directory tree\<close>

text \<open>\<open>str.lower()\<close> on ASCII letters.\<close>

definition lower_char :: "char \<Rightarrow> char" where
  "lower_char c =
     (let n = (of_char c :: nat)
      in if 65 \<le> n \<and> n \<le> 90 then char_of (n + 32) else c)"

definition lower :: "string \<Rightarrow> string" where
  "lower s = map lower_char s"

definition ignore :: "string list" where
  "ignore =
    [''.git'', ''.venv'', ''venv'', ''node_modules'', ''__pycache__'', ''.pytest_cache'',
     ''target'', ''dist'', ''build'', ''.next'', ''.cache'', ''coverage'']"

text \<open>The box drawing strings of the source, as their UTF-8 bytes.\<close>

definition connector_last :: string where
  "connector_last =
     [CHR 0xE2, CHR 0x94, CHR 0x94, CHR 0xE2, CHR 0x94, CHR 0x80,
      CHR 0xE2, CHR 0x94, CHR 0x80, CHR 0x20]"

definition connector_mid :: string where
  "connector_mid =
     [CHR 0xE2, CHR 0x94, CHR 0x9C, CHR 0xE2, CHR 0x94, CHR 0x80,
      CHR 0xE2, CHR 0x94, CHR 0x80, CHR 0x20]"

definition extension_last :: string where
  "extension_last = [CHR 0x20, CHR 0x20, CHR 0x20, CHR 0x20]"

definition extension_mid :: string where
  "extension_mid = [CHR 0xE2, CHR 0x94, CHR 0x82, CHR 0x20, CHR 0x20, CHR 0x20]"

text \<open>
  \<open>sorted(path.iterdir(), key=lambda e: (not e.is_dir(), e.name.lower()))\<close>: a stable
  sort, directories first, then by lower-cased name.
\<close>

definition sorted_entries :: "fsnode list \<Rightarrow> fsnode list" where
  "sorted_entries es = sort_key (\<lambda>e. (\<not> is_dir e, lower (node_name e))) es"

text \<open>
  A line appended to \<open>lines\<close>. \<open>line_text\<close> is the string the source appends;
  \<open>line_depth\<close> records the \<open>depth\<close> argument of the call of \<open>walk\<close> that appended it
  and \<open>line_ellipsis\<close> whether it is the line \<open>prefix...\<close> of the early return.
  The two annotations do not influence the traversal.
\<close>

record tree_line =
  line_text :: string
  line_depth :: int
  line_ellipsis :: bool

text \<open>
  \<open>walk\<close> with the enclosing \<open>lines\<close> and \<open>file_count\<close> passed through as a pair.
  \<open>walk\<close> receives what \<open>path.iterdir()\<close> gives (whether the directory can be
  listed, and its entries); \<open>walk_loop\<close> is the \<open>for\<close> loop over
  \<open>enumerate(entries)\<close> from index \<open>i\<close>, with \<open>n = len(entries)\<close>. The \<open>return\<close>
  inside the loop ends this loop only: the caller's loop goes on.
\<close>

lemma size_list_insort_key:
  "size_list f (insort_key k x xs) = Suc (f x + size_list f xs)"
  by (induction xs) auto

lemma size_sorted_entries: "size_list size (sorted_entries es) = size_list size es"
  unfolding sorted_entries_def
  by (induction es) (auto simp: size_list_insort_key)

function walk ::
    "int \<Rightarrow> int \<Rightarrow> bool \<Rightarrow> fsnode list \<Rightarrow> string \<Rightarrow> int
       \<Rightarrow> tree_line list \<times> int \<Rightarrow> tree_line list \<times> int"
  and walk_loop ::
    "int \<Rightarrow> int \<Rightarrow> nat \<Rightarrow> string \<Rightarrow> int \<Rightarrow> nat \<Rightarrow> fsnode list
       \<Rightarrow> tree_line list \<times> int \<Rightarrow> tree_line list \<times> int"
where
  "walk max_depth max_files listable entries pre depth st =
     (if depth > max_depth \<or> snd st > max_files then st
      else if \<not> listable then st
      else walk_loop max_depth max_files (length entries) pre depth 0
             (sorted_entries entries) st)"
| "walk_loop max_depth max_files n pre depth i [] st = st"
| "walk_loop max_depth max_files n pre depth i (entry # rest) st =
     (if node_name entry \<in> set ignore \<or> prefix ''.'' (node_name entry)
      then walk_loop max_depth max_files n pre depth (Suc i) rest st
      else
        (let file_count = snd st + 1
         in if file_count > max_files
            then (fst st @ [\<lparr>line_text = pre @ ''...'', line_depth = depth,
                             line_ellipsis = True\<rparr>], file_count)
            else
              (let is_last = (Suc i = n);
                   connector = (if is_last then connector_last else connector_mid);
                   lines = fst st @ [\<lparr>line_text = pre @ connector @ node_name entry,
                                      line_depth = depth, line_ellipsis = False\<rparr>]
               in walk_loop max_depth max_files n pre depth (Suc i) rest
                    (case entry of
                       Dir _ listable entries \<Rightarrow>
                         walk max_depth max_files listable entries
                           (pre @ (if is_last then extension_last else extension_mid))
                           (depth + 1) (lines, file_count)
                     | File _ _ \<Rightarrow> (lines, file_count)))))"
  by pat_completeness auto
termination
proof (relation "measure (\<lambda>x. case x of
      Inl (_, _, _, entries, _, _, _) \<Rightarrow> 2 * size_list size entries + 1
    | Inr (_, _, _, _, _, _, es, _) \<Rightarrow> 2 * size_list size es)")
qed (auto simp: size_sorted_entries)

definition tree_lines :: "repository \<Rightarrow> int \<Rightarrow> int \<Rightarrow> tree_line list" where
  "tree_lines r max_depth max_files =
     fst (walk max_depth max_files (repo_listable r) (repo_entries r) [] 0 ([], 0))"

text \<open>\<open>"\n".join(lines)\<close>\<close>

fun join :: "string \<Rightarrow> string list \<Rightarrow> string" where
  "join sep [] = []"
| "join sep [x] = x"
| "join sep (x # xs) = x @ sep @ join sep xs"

definition get_directory_tree :: "repository \<Rightarrow> int \<Rightarrow> int \<Rightarrow> string" where
  "get_directory_tree r max_depth max_files =
     join [CHR 0x0A] (map line_text (tree_lines r max_depth max_files))"

section \<open>Entry points\<close>

definition executables :: "string list" where
  "executables = [''main.py'', ''app.py'', ''cli.py'', ''index.js'', ''main.rs'', ''main.go'']"

text \<open>
  The first loop: \<open>(repo_path / name).exists() or (repo_path / "src" / name).exists()\<close>.
\<close>

definition executable_exists :: "fsnode list \<Rightarrow> string \<Rightarrow> bool" where
  "executable_exists entries n =
     (child entries n \<noteq> None \<or> child (entries_of (child entries ''src'')) n \<noteq> None)"

text \<open>\<open>str.split(sep)\<close> for a separator of one character.\<close>

fun split_char :: "char \<Rightarrow> string \<Rightarrow> string list" where
  "split_char sep [] = [[]]"
| "split_char sep (c # cs) =
     (if c = sep then [] # split_char sep cs
      else (case split_char sep cs of
              [] \<Rightarrow> [[c]]
            | l # ls \<Rightarrow> (c # l) # ls))"

definition is_ident_start :: "char \<Rightarrow> bool" where
  "is_ident_start c =
     (let n = (of_char c :: nat)
      in (97 \<le> n \<and> n \<le> 122) \<or> (65 \<le> n \<and> n \<le> 90) \<or> c = CHR ''_'')"

definition is_ident_char :: "char \<Rightarrow> bool" where
  "is_ident_char c =
     (let n = (of_char c :: nat)
      in (97 \<le> n \<and> n \<le> 122) \<or> (65 \<le> n \<and> n \<le> 90) \<or> (48 \<le> n \<and> n \<le> 57)
         \<or> c = CHR ''_'' \<or> c = CHR ''-'')"

text \<open>
  \<open>re.findall(r"^([a-zA-Z_][a-zA-Z0-9_-]*):", content, re.MULTILINE)\<close>. With
  \<open>re.MULTILINE\<close> the anchor matches at the start of the text and after every
  newline, and a match never contains a newline: every line gives at most one target,
  the identifier at its start when a colon follows it.
\<close>

definition line_target :: "string \<Rightarrow> string option" where
  "line_target line =
     (case line of
        [] \<Rightarrow> None
      | c # cs \<Rightarrow>
          if is_ident_start c
          then (case dropWhile is_ident_char cs of
                  [] \<Rightarrow> None
                | d # _ \<Rightarrow> if d = CHR '':'' then Some (c # takeWhile is_ident_char cs) else None)
          else None)"

definition makefile_targets :: "string \<Rightarrow> string list" where
  "makefile_targets content = List.map_filter line_target (split_char (CHR 0x0A) content)"

definition common_targets :: "string list" where
  "common_targets = [''all'', ''clean'', ''install'', ''test'', ''build'']"

text \<open>The loop over \<open>targets[:10]\<close>: \<open>append\<close> or \<open>insert(0, ...)\<close>.\<close>

fun add_targets :: "string list \<Rightarrow> string list \<Rightarrow> string list" where
  "add_targets [] entry_points = entry_points"
| "add_targets (target # targets) entry_points =
     add_targets targets
       (if target \<notin> set common_targets then entry_points @ [''make '' @ target]
        else (''make '' @ target) # entry_points)"

definition from_makefile :: "fsnode list \<Rightarrow> string list \<Rightarrow> py_exc + string list" where
  "from_makefile entries entry_points =
     (case child entries ''Makefile'' of
        None \<Rightarrow> Inr entry_points
      | Some f \<Rightarrow>
          (case read_text f of
             Inl e \<Rightarrow> if is_IOError e then Inr entry_points else Inl e
           | Inr content \<Rightarrow>
               Inr (add_targets (take 10 (makefile_targets content)) entry_points)))"

text \<open>The body of the \<open>try\<close> for the scripts of \<open>package.json\<close>.\<close>

definition scripts_body :: "runtime \<Rightarrow> fsnode \<Rightarrow> string list \<Rightarrow> py_exc + string list" where
  "scripts_body rt f entry_points =
     bindE (read_text f) (\<lambda>text.
       case json_loads rt text of
         None \<Rightarrow> Inl JSONDecodeError
       | Some pkg \<Rightarrow>
           bindE (py_get pkg ''scripts'' (PDict [])) (\<lambda>scripts.
           bindE (py_keys scripts) (\<lambda>ks.
             Inr (entry_points @ map (\<lambda>script. ''npm run '' @ script) ks))))"

definition from_scripts :: "runtime \<Rightarrow> fsnode list \<Rightarrow> string list \<Rightarrow> py_exc + string list" where
  "from_scripts rt entries entry_points =
     (case child entries ''package.json'' of
        None \<Rightarrow> Inr entry_points
      | Some f \<Rightarrow>
          (case scripts_body rt f entry_points of
             Inl e \<Rightarrow> if e = JSONDecodeError \<or> is_IOError e then Inr entry_points else Inl e
           | Inr eps \<Rightarrow> Inr eps))"

definition detect_entry_points :: "runtime \<Rightarrow> repository \<Rightarrow> string list \<Rightarrow> py_exc + string list" where
  "detect_entry_points rt r project_types =
     bindE (from_makefile (repo_entries r)
              (filter (executable_exists (repo_entries r)) executables)) (\<lambda>eps1.
     bindE (from_scripts rt (repo_entries r) eps1) (\<lambda>eps2.
       Inr (take 15 eps2)))"

section \<open>Rendering \<open>SKILL.md\<close>\<close>

definition upper_char :: "char \<Rightarrow> char" where
  "upper_char c =
     (let n = (of_char c :: nat)
      in if 97 \<le> n \<and> n \<le> 122 then char_of (n - 32) else c)"

definition upper :: "string \<Rightarrow> string" where
  "upper s = map upper_char s"

text \<open>\<open>s.replace("_", "-").lower()\<close>\<close>

definition display_name :: "string \<Rightarrow> string" where
  "display_name s = lower (map (\<lambda>c. if c = CHR ''_'' then CHR ''-'' else c) s)"

text \<open>Truth value of a value, as \<open>or\<close> and \<open>if\<close> test it.\<close>

fun py_truthy :: "pyval \<Rightarrow> bool" where
  "py_truthy PNone = False"
| "py_truthy (PBool b) = b"
| "py_truthy (PInt i) = (i \<noteq> 0)"
| "py_truthy (PStr s) = (s \<noteq> [])"
| "py_truthy (PList xs) = (xs \<noteq> [])"
| "py_truthy (PDict kvs) = (kvs \<noteq> [])"

text \<open>A value inside an f-string: a string as it is, any other value through \<open>str()\<close>.\<close>

definition fmt :: "runtime \<Rightarrow> pyval \<Rightarrow> string" where
  "fmt rt v = (case v of PStr s \<Rightarrow> s | _ \<Rightarrow> py_str rt v)"

text \<open>\<open>readme.split("\n\n")\<close>: the second argument collects the current piece, reversed.\<close>

fun split_paragraphs :: "string \<Rightarrow> string \<Rightarrow> string list" where
  "split_paragraphs [] cur = [rev cur]"
| "split_paragraphs [a] cur = [rev (a # cur)]"
| "split_paragraphs (a # b # cs) cur =
     (if a = CHR 0x0A \<and> b = CHR 0x0A then rev cur # split_paragraphs cs []
      else split_paragraphs (b # cs) (a # cur))"

definition strip :: "string \<Rightarrow> string" where
  "strip s = rstrip (lstrip s)"

text \<open>The loop over the paragraphs, left at the first one that qualifies (\<open>break\<close>).\<close>

fun first_purpose :: "string list \<Rightarrow> string" where
  "first_purpose [] = []"
| "first_purpose (p # ps) =
     (let q = strip p
      in if length q > 50 \<and> \<not> prefix ''#'' q \<and> \<not> prefix ''```'' q
         then take 500 q
         else first_purpose ps)"

definition purpose_of :: "string \<Rightarrow> string" where
  "purpose_of readme = (if readme \<noteq> [] then first_purpose (split_paragraphs readme []) else [])"

text \<open>\<open>Path(doc).stem\<close> and \<open>Path(doc).name\<close> of a path given by its components.\<close>

definition stem :: "string \<Rightarrow> string" where
  "stem n =
     (let base = rev (drop 1 (dropWhile (\<lambda>c. c \<noteq> CHR ''.'') (rev n)));
          ext = rev (takeWhile (\<lambda>c. c \<noteq> CHR ''.'') (rev n))
      in if CHR ''.'' \<in> set n \<and> base \<noteq> [] \<and> ext \<noteq> [] then base else n)"

definition reference_line :: "string list \<Rightarrow> string" where
  "reference_line doc =
     ''- ['' @ upper (stem (last doc)) @ ''](references/'' @ last doc @ '')'' @ [CHR 0x0A]"

text \<open>
  \<open>repo_path.glob(pattern)\<close> for the five patterns of the key files table: the entries
  of the directory \<open>d\<close> of the root whose name starts with \<open>pre\<close> (\<open>d/pre*\<close>). A
  directory that cannot be listed gives no match.
\<close>

definition glob_matches :: "fsnode list \<Rightarrow> string \<Rightarrow> string \<Rightarrow> fsnode list" where
  "glob_matches entries d pre =
     (case child entries d of
        Some (Dir _ listable es) \<Rightarrow>
          if listable then filter (\<lambda>e. prefix pre (node_name e)) es else []
      | _ \<Rightarrow> [])"

definition key_patterns :: "((string \<times> string) \<times> string) list" where
  "key_patterns =
    [((''src'', ''main.''), ''Application entry point''),
     ((''src'', ''lib.''), ''Library exports''),
     ((''src'', ''index.''), ''Module entry''),
     ((''config'', []), ''Configuration''),
     ((''tests'', []), ''Test suite'')]"

definition key_file_row :: "fsnode list \<Rightarrow> (string \<times> string) \<times> string \<Rightarrow> string" where
  "key_file_row entries kp =
     (case kp of ((d, pre), purpose) \<Rightarrow>
        if glob_matches entries d pre \<noteq> []
        then ''| `'' @ d @ ''/'' @ pre @ ''*` | '' @ purpose @ '' |'' @ [CHR 0x0A]
        else [])"

definition nl :: string where
  "nl = [CHR 0x0A]"

definition python_setup :: string where
  "python_setup =
     ''### Python Setup'' @ nl @ nl @ ''```bash'' @ nl @ ''cd {{skill_dir}}'' @ nl
     @ ''python -m venv .venv'' @ nl @ ''source .venv/bin/activate'' @ nl
     @ ''pip install -e .'' @ nl @ ''```'' @ nl @ nl"

definition node_setup :: string where
  "node_setup =
     ''### Node.js Setup'' @ nl @ nl @ ''```bash'' @ nl @ ''cd {{skill_dir}}'' @ nl
     @ ''npm install'' @ nl @ ''```'' @ nl @ nl"

definition rust_setup :: string where
  "rust_setup =
     ''### Rust Setup'' @ nl @ nl @ ''```bash'' @ nl @ ''cd {{skill_dir}}'' @ nl
     @ ''cargo build'' @ nl @ ''```'' @ nl @ nl"

text \<open>
  \<open>generate_skill_md\<close>. The first statement calls \<open>replace\<close> on the name, which only
  a string has; after it the name is a string.
\<close>

definition generate_skill_md ::
  "runtime \<Rightarrow> repository \<Rightarrow> string list \<Rightarrow> metadata \<Rightarrow> string list \<Rightarrow> string \<Rightarrow> string
     \<Rightarrow> py_exc + string" where
  "generate_skill_md rt r project_types md entry_points tree readme =
     (case md_name md of
        PStr raw_name \<Rightarrow>
          (let name = display_name raw_name;
               description =
                 (if py_truthy (md_description md) then fmt rt (md_description md)
                  else ''Work with the '' @ raw_name @ '' codebase.'');
               triggers =
                 [''working on '' @ name, ''navigate '' @ name, ''build '' @ name,
                  ''debug '' @ name, name @ '' codebase''];
               purpose = purpose_of readme;
               head =
                 ''---'' @ nl @ ''name: '' @ name @ nl
                 @ ''description: '' @ description @ '' Use when ''
                 @ join '', '' (take 3 triggers) @ ''.'' @ nl
                 @ ''---'' @ nl @ nl
                 @ ''# '' @ raw_name @ nl @ nl
                 @ (if purpose \<noteq> [] then purpose
                    else ''Codebase skill for '' @ raw_name @ ''.'') @ nl @ nl
                 @ ''## Project Type'' @ nl @ nl
                 @ join '', '' project_types @ nl @ nl
                 @ ''## Directory Structure'' @ nl @ nl
                 @ ''```'' @ nl @ tree @ nl @ ''```'' @ nl @ nl
                 @ ''## Quick Start'' @ nl @ nl;
               commands =
                 (if entry_points \<noteq> []
                  then ''### Common Commands'' @ nl @ nl
                       @ concat (map (\<lambda>ep. ''```bash'' @ nl @ ep @ nl @ ''```'' @ nl @ nl)
                                   (take 8 entry_points))
                  else []);
               setup =
                 (if ''python'' \<in> set project_types then python_setup else [])
                 @ (if ''node'' \<in> set project_types then node_setup else [])
                 @ (if ''rust'' \<in> set project_types then rust_setup else []);
               references =
                 ''## References'' @ nl @ nl
                 @ ''See `references/` for detailed documentation:'' @ nl @ nl
                 @ concat (map reference_line (take 5 DOC_FILES));
               key_files =
                 nl @ ''## Key Files'' @ nl @ nl
                 @ ''| File | Purpose |'' @ nl
                 @ ''|------|---------|'' @ nl
                 @ concat (map (key_file_row (repo_entries r)) key_patterns)
           in Inr (head @ commands @ setup @ references @ key_files))
      | _ \<Rightarrow> Inl AttributeError)"

section \<open>The generator\<close>

text \<open>
  What \<open>git clone\<close> does for a URL: it leaves a working tree, it exits with a non-zero
  status (\<open>CalledProcessError\<close>, which \<open>clone_repo\<close> turns into \<open>False\<close>), or the
  \<open>git\<close> program is missing and \<open>subprocess.run\<close> raises \<open>FileNotFoundError\<close>.
\<close>

datatype clone_outcome = Cloned bool "fsnode list" | CloneFailed | GitNotFound

text \<open>
  The surroundings of one run: the name \<open>tempfile.mkdtemp\<close> returns, the outcome of a
  clone, the local directories by path (\<open>None\<close>: the path does not exist), the
  working directory, and an error of the output directory (raised by the first
  operation on it), if any.
\<close>

record surroundings =
  fresh_temp :: string
  clone :: "string \<Rightarrow> clone_outcome"
  local_repo :: "string \<Rightarrow> repository option"
  cwd :: string
  output_error :: "py_exc option"

text \<open>
  The state a run changes: the temporary directories that exist, and the files of the
  output directories by path.
\<close>

record world =
  temp_dirs :: "string list"
  out_files :: "(string \<times> string) list"

definition write_text :: "string \<Rightarrow> string \<Rightarrow> world \<Rightarrow> world" where
  "write_text p content w = w\<lparr>out_files := AList.update p content (out_files w)\<rparr>"

text \<open>\<open>touch()\<close> creates an empty file and leaves an existing one as it is.\<close>

definition touch :: "string \<Rightarrow> world \<Rightarrow> world" where
  "touch p w = (if map_of (out_files w) p = None then write_text p [] w else w)"

definition is_url :: "string \<Rightarrow> bool" where
  "is_url source =
     (prefix ''http://'' source \<or> prefix ''https://'' source \<or> prefix ''git@'' source)"

text \<open>\<open>clone_repo\<close>: \<open>True\<close> with the working tree, \<open>False\<close>, or the exception it lets through.\<close>

definition clone_repo :: "surroundings \<Rightarrow> string \<Rightarrow> py_exc + repository option" where
  "clone_repo env url =
     (case clone env url of
        Cloned listable entries \<Rightarrow>
          Inr (Some \<lparr>repo_name = ''repo'', repo_listable = listable, repo_entries = entries\<rparr>)
      | CloneFailed \<Rightarrow> Inr None
      | GitNotFound \<Rightarrow> Inl (FileNotFoundError ''git''))"

text \<open>The loop writing the harvested documents under \<open>references\<close> by their base name.\<close>

fun write_references :: "string \<Rightarrow> (string list \<times> string) list \<Rightarrow> world \<Rightarrow> world" where
  "write_references refs_path [] w = w"
| "write_references refs_path ((doc_file, content) # rest) w =
     write_references refs_path rest (write_text (refs_path @ ''/'' @ last doc_file) content w)"

text \<open>
  The block under \<open>try\<close>: the result (the skill path or the exception that leaves the
  block) and the world after it.
\<close>

definition generate_body ::
  "runtime \<Rightarrow> surroundings \<Rightarrow> repository \<Rightarrow> string option \<Rightarrow> world \<Rightarrow> (py_exc + string) \<times> world" where
  "generate_body rt env r output_dir w =
     (let project_types = detect_project_type rt r
      in case get_project_metadata rt r project_types of Inl e \<Rightarrow> (Inl e, w) | Inr md \<Rightarrow>
         case get_readme_content r of Inl e \<Rightarrow> (Inl e, w) | Inr readme \<Rightarrow>
         let tree = get_directory_tree r 3 50
         in case detect_entry_points rt r project_types of Inl e \<Rightarrow> (Inl e, w) | Inr entry_points \<Rightarrow>
         case extract_key_files r of Inl e \<Rightarrow> (Inl e, w) | Inr key_files \<Rightarrow>
         case md_name md of
           PStr raw_name \<Rightarrow>
             (let skill_name = display_name raw_name;
                  skill_path = (case output_dir of
                                  Some d \<Rightarrow> d
                                | None \<Rightarrow> cwd env @ ''/skills/'' @ skill_name)
              in case output_error env of Some e \<Rightarrow> (Inl e, w) | None \<Rightarrow>
                 case generate_skill_md rt r project_types md entry_points tree readme of
                   Inl e \<Rightarrow> (Inl e, w)
                 | Inr skill_md \<Rightarrow>
                     (let w1 = write_text (skill_path @ ''/SKILL.md'') skill_md w;
                          w2 = write_references (skill_path @ ''/references'') key_files w1;
                          w3 = touch (skill_path @ ''/scripts/.gitkeep'') w2
                      in (Inr skill_path, w3)))
         | _ \<Rightarrow> (Inl AttributeError, w))"

text \<open>
  \<open>generate_skill\<close>. The clone and the check of the local path stand before the
  \<open>try\<close>; the \<open>finally\<close> clause removes the temporary directory when there is one and
  \<open>keep_clone\<close> is false (\<open>shutil.rmtree(temp_dir, ignore_errors=True)\<close> never raises).
\<close>

definition generate_skill ::
  "runtime \<Rightarrow> surroundings \<Rightarrow> string \<Rightarrow> string option \<Rightarrow> bool \<Rightarrow> world
     \<Rightarrow> (py_exc + string) \<times> world" where
  "generate_skill rt env source output_dir keep_clone w =
     (if is_url source
      then
        (let temp_dir = fresh_temp env;
             w0 = w\<lparr>temp_dirs := temp_dir # temp_dirs w\<rparr>
         in case clone_repo env source of
              Inl e \<Rightarrow> (Inl e, w0)
            | Inr None \<Rightarrow> (Inl (RuntimeError (''Failed to clone '' @ source)), w0)
            | Inr (Some r) \<Rightarrow>
                (case generate_body rt env r output_dir w0 of
                   (res, w1) \<Rightarrow>
                     (res, if temp_dir \<noteq> [] \<and> \<not> keep_clone
                           then w1\<lparr>temp_dirs := removeAll temp_dir (temp_dirs w1)\<rparr>
                           else w1)))
      else
        (case local_repo env source of
           None \<Rightarrow> (Inl (FileNotFoundError (''Repository not found: '' @ source)), w)
         | Some r \<Rightarrow> generate_body rt env r output_dir w))"

section \<open>The skill wrapper: values and files\<close>

definition sq :: string where
  "sq = [CHR 0x27]"

definition dq :: string where
  "dq = [CHR 0x22]"

text \<open>
  Python's \<open>==\<close> on the values of a JSON document: \<open>True\<close> and \<open>False\<close> are the
  numbers 1 and 0, lists are compared element by element and dictionaries key by key,
  whatever their order.
\<close>

fun num_of :: "pyval \<Rightarrow> int option" where
  "num_of (PBool b) = Some (if b then 1 else 0)"
| "num_of (PInt i) = Some i"
| "num_of _ = None"

function (sequential) py_eq :: "pyval \<Rightarrow> pyval \<Rightarrow> bool" where
  "py_eq PNone PNone = True"
| "py_eq (PStr s) (PStr t) = (s = t)"
| "py_eq (PList xs) (PList ys) =
     (length xs = length ys \<and> list_all (\<lambda>(x, y). py_eq x y) (zip xs ys))"
| "py_eq (PDict kvs) (PDict lws) =
     (length kvs = length lws
      \<and> list_all (\<lambda>(k, v). case map_of lws k of None \<Rightarrow> False | Some w \<Rightarrow> py_eq v w) kvs)"
| "py_eq a b = (case (num_of a, num_of b) of (Some x, Some y) \<Rightarrow> x = y | _ \<Rightarrow> False)"
  by pat_completeness auto
termination
  by (relation "measure (\<lambda>(a, b). size a)")
     (auto dest!: set_zip_leftD simp: less_Suc_eq_le size_list_estimation')

text \<open>\<open>len(x)\<close>: a string, a list and a dictionary have a length.\<close>

fun py_len :: "pyval \<Rightarrow> py_exc + int" where
  "py_len (PStr s) = Inr (int (length s))"
| "py_len (PList xs) = Inr (int (length xs))"
| "py_len (PDict kvs) = Inr (int (length kvs))"
| "py_len _ = Inl TypeError"

text \<open>What a \<open>for\<close> over a value visits: items, characters or keys.\<close>

fun py_iter :: "pyval \<Rightarrow> py_exc + pyval list" where
  "py_iter (PList xs) = Inr xs"
| "py_iter (PStr s) = Inr (map (\<lambda>c. PStr [c]) s)"
| "py_iter (PDict kvs) = Inr (map (\<lambda>kv. PStr (fst kv)) kvs)"
| "py_iter _ = Inl TypeError"

text \<open>
  \<open>x in c\<close>: equality with an item of a list, a substring of a string (the left side
  must be a string), a key of a dictionary (a list or a dictionary cannot be hashed);
  other values are not containers.
\<close>

fun py_in :: "pyval \<Rightarrow> pyval \<Rightarrow> py_exc + bool" where
  "py_in x (PList ys) = Inr (list_ex (py_eq x) ys)"
| "py_in (PStr s) (PStr t) = Inr (sublist s t)"
| "py_in _ (PStr t) = Inl TypeError"
| "py_in (PList _) (PDict _) = Inl TypeError"
| "py_in (PDict _) (PDict _) = Inl TypeError"
| "py_in (PStr k) (PDict kvs) = Inr (k \<in> set (map fst kvs))"
| "py_in _ (PDict kvs) = Inr False"
| "py_in _ _ = Inl TypeError"

text \<open>\<open>d[key]\<close> and \<open>d.setdefault(key, value)\<close> on a dictionary.\<close>

fun py_item :: "pyval \<Rightarrow> string \<Rightarrow> py_exc + pyval" where
  "py_item (PDict kvs) k = (case map_of kvs k of Some v \<Rightarrow> Inr v | None \<Rightarrow> Inl KeyError)"
| "py_item _ k = Inl TypeError"

fun setdefault :: "pyval \<Rightarrow> string \<Rightarrow> pyval \<Rightarrow> py_exc + pyval" where
  "setdefault (PDict kvs) k v =
     Inr (PDict (if map_of kvs k = None then kvs @ [(k, v)] else kvs))"
| "setdefault _ k v = Inl AttributeError"

text \<open>
  A \<open>pathlib.Path\<close>: whether it is absolute, and its components. \<open>parts_of\<close> drops the
  empty components and the components \<open>.\<close>, as the constructor does; \<open>pjoin\<close> is the
  operator \<open>/\<close> with a string, where an absolute right side replaces the left.
\<close>

type_synonym path = "bool \<times> string list"

definition parts_of :: "string \<Rightarrow> string list" where
  "parts_of s = filter (\<lambda>c. c \<noteq> [] \<and> c \<noteq> ''.'') (split_char (CHR ''/'') s)"

definition path_of_str :: "string \<Rightarrow> path" where
  "path_of_str s = (prefix ''/'' s, parts_of s)"

definition pjoin :: "path \<Rightarrow> string \<Rightarrow> path" where
  "pjoin p s = (if prefix ''/'' s then path_of_str s else (fst p, snd p @ parts_of s))"

definition path_str :: "path \<Rightarrow> string" where
  "path_str p =
     (if fst p then ''/'' @ join ''/'' (snd p)
      else if snd p = [] then ''.'' else join ''/'' (snd p))"

text \<open>
  The files of the wrapper: an association list from the absolute location (the
  components from the root) to a directory or a file with its text. The root is a
  directory. \<open>skill_dir\<close> is \<open>Path(__file__).parent.parent\<close>, \<open>work_dir\<close> the working
  directory that a relative path starts from.
\<close>

datatype ent = DirE | FileE string

type_synonym fsys = "(string list \<times> ent) list"

record layout =
  skill_dir :: "string list"
  work_dir :: "string list"

definition locate :: "layout \<Rightarrow> path \<Rightarrow> string list" where
  "locate lay p = (if fst p then snd p else work_dir lay @ snd p)"

definition lookup :: "fsys \<Rightarrow> string list \<Rightarrow> ent option" where
  "lookup fs k = (if k = [] then Some DirE else map_of fs k)"

definition INPUT_DIR :: "layout \<Rightarrow> path" where
  "INPUT_DIR lay = (True, skill_dir lay @ [''input''])"

definition OUTPUT_DIR :: "layout \<Rightarrow> path" where
  "OUTPUT_DIR lay = (True, skill_dir lay @ [''output''])"

definition PROJECTS_DIR :: "layout \<Rightarrow> path" where
  "PROJECTS_DIR lay = (True, skill_dir lay @ [''projects''])"

text \<open>\<open>p.exists()\<close>\<close>

definition exists_path :: "layout \<Rightarrow> fsys \<Rightarrow> path \<Rightarrow> bool" where
  "exists_path lay fs p = (lookup fs (locate lay p) \<noteq> None)"

text \<open>
  \<open>mkdir(exist_ok=True)\<close> at a location: an existing directory is left alone, an
  existing file raises \<open>FileExistsError\<close>, and the parent must be a directory.
\<close>

definition mkdir_at :: "string list \<Rightarrow> fsys \<Rightarrow> (py_exc + unit) \<times> fsys" where
  "mkdir_at k fs =
     (case lookup fs k of
        Some DirE \<Rightarrow> (Inr (), fs)
      | Some (FileE _) \<Rightarrow> (Inl FileExistsError, fs)
      | None \<Rightarrow>
          (case lookup fs (butlast k) of
             Some DirE \<Rightarrow> (Inr (), AList.update k DirE fs)
           | Some (FileE _) \<Rightarrow> (Inl NotADirectoryError, fs)
           | None \<Rightarrow> (Inl (FileNotFoundError (join ''/'' k)), fs)))"

text \<open>
  \<open>mkdir(parents=True, exist_ok=True)\<close>: the missing ancestors are created first. An
  ancestor that is a file raises \<open>NotADirectoryError\<close>.
\<close>

function mkdir_parents_at :: "string list \<Rightarrow> fsys \<Rightarrow> (py_exc + unit) \<times> fsys" where
  "mkdir_parents_at k fs =
     (case lookup fs k of
        Some DirE \<Rightarrow> (Inr (), fs)
      | Some (FileE _) \<Rightarrow> (Inl FileExistsError, fs)
      | None \<Rightarrow>
          (case mkdir_parents_at (butlast k) fs of
             (Inl e, fs') \<Rightarrow> (Inl (if e = FileExistsError then NotADirectoryError else e), fs')
           | (Inr _, fs') \<Rightarrow> (Inr (), AList.update k DirE fs')))"
  by pat_completeness auto
termination
proof (relation "measure (\<lambda>(k, fs). length k)")
  show "wf (measure (\<lambda>(k :: string list, fs :: fsys). length k))" by simp
next
  fix k :: "string list" and fs :: fsys
  assume "lookup fs k = None"
  then have "k \<noteq> []" by (auto simp: lookup_def)
  then show "((butlast k, fs), (k, fs)) \<in> measure (\<lambda>(k, fs). length k)" by simp
qed

text \<open>\<open>p.write_text(s)\<close> and \<open>p.read_text()\<close> at a location.\<close>

definition write_at :: "string list \<Rightarrow> string \<Rightarrow> fsys \<Rightarrow> (py_exc + unit) \<times> fsys" where
  "write_at k content fs =
     (case lookup fs k of
        Some DirE \<Rightarrow> (Inl IsADirectoryError, fs)
      | Some (FileE _) \<Rightarrow> (Inr (), AList.update k (FileE content) fs)
      | None \<Rightarrow>
          (case lookup fs (butlast k) of
             Some DirE \<Rightarrow> (Inr (), AList.update k (FileE content) fs)
           | Some (FileE _) \<Rightarrow> (Inl NotADirectoryError, fs)
           | None \<Rightarrow> (Inl (FileNotFoundError (join ''/'' k)), fs)))"

definition read_at :: "string list \<Rightarrow> fsys \<Rightarrow> py_exc + string" where
  "read_at k fs =
     (case lookup fs k of
        Some (FileE s) \<Rightarrow> Inr s
      | Some DirE \<Rightarrow> Inl IsADirectoryError
      | None \<Rightarrow> Inl (FileNotFoundError (join ''/'' k)))"

text \<open>
  A step of a command: from the files to a result or an exception, and the files
  after it. \<open>thenS\<close> runs the next step unless the first raised.
\<close>

definition thenS ::
  "(fsys \<Rightarrow> (py_exc + 'a) \<times> fsys) \<Rightarrow> ('a \<Rightarrow> fsys \<Rightarrow> (py_exc + 'b) \<times> fsys)
     \<Rightarrow> fsys \<Rightarrow> (py_exc + 'b) \<times> fsys" where
  "thenS m f fs = (case m fs of (Inl e, fs') \<Rightarrow> (Inl e, fs') | (Inr v, fs') \<Rightarrow> f v fs')"

text \<open>A call that may raise and does not touch the files.\<close>

definition pureS :: "py_exc + 'a \<Rightarrow> fsys \<Rightarrow> (py_exc + 'a) \<times> fsys" where
  "pureS x fs = (x, fs)"

section \<open>The skill wrapper: commands\<close>

definition error_result :: "string \<Rightarrow> pyval" where
  "error_result summary =
     PDict [(''status'', PStr ''error''), (''summary'', PStr summary), (''artifacts'', PList [])]"

definition file_artifact :: "path \<Rightarrow> pyval" where
  "file_artifact p = PDict [(''type'', PStr ''file''), (''path'', PStr (path_str p))]"

text \<open>
  \<open>sessions_spawn\<close> cannot spawn anything from inside the skill: it returns the
  request for the orchestrator, always with status \<open>pending\<close>.
\<close>

definition sessions_spawn :: "string \<Rightarrow> string \<Rightarrow> int \<Rightarrow> pyval" where
  "sessions_spawn task label timeout =
     PDict
      [(''status'', PStr ''pending''),
       (''note'', PStr ''Sub-agent required - orchestrator should execute sessions_spawn''),
       (''action'',
        PDict [(''tool'', PStr ''sessions_spawn''),
               (''params'',
                PDict [(''task'', PStr task), (''label'', PStr label),
                       (''runTimeoutSeconds'', PInt timeout)])])]"

definition cmd_help :: "pyval \<Rightarrow> pyval" where
  "cmd_help args =
     PDict
      [(''status'', PStr ''ok''),
       (''summary'', PStr ''AutoForge Skill - Available Commands''),
       (''commands'',
        PDict
         [(''init'',
           PDict [(''description'', PStr ''Initialize a new project''),
                  (''args'',
                   PDict [(''name'', PStr ''Project name (required)''),
                          (''path'', PStr ''Project directory (optional)'')])]),
          (''plan'',
           PDict [(''description'', PStr ''Generate a detailed spec from requirements''),
                  (''args'',
                   PDict [(''project'', PStr ''Project name (required)''),
                          (''requirements'',
                           PStr ''Natural language requirements (required)'')]),
                  (''note'', PStr ''Uses sessions_spawn for LLM planning'')]),
          (''build'',
           PDict [(''description'', PStr ''Execute the build with sub-agents''),
                  (''args'',
                   PDict [(''project'', PStr ''Project name (required)''),
                          (''feature'', PStr ''Specific feature to build (optional)'')]),
                  (''note'', PStr ''Spawns sub-agents for each task'')]),
          (''status'',
           PDict [(''description'', PStr ''Check project status''),
                  (''args'',
                   PDict [(''project'',
                           PStr ''Project name (optional, lists all if omitted)'')])])]),
       (''artifacts'', PList [])]"

subsection \<open>\<open>init\<close>\<close>

definition spec_template :: "runtime \<Rightarrow> pyval \<Rightarrow> string" where
  "spec_template rt name =
     ''<project_specification>'' @ nl @ ''# Project: '' @ fmt rt name @ nl @ nl
       @ ''## Overview'' @ nl @ ''[Describe what this project does]'' @ nl @ nl
       @ ''## Features'' @ nl @ ''- [ ] Feature 1'' @ nl @ ''- [ ] Feature 2'' @ nl @ nl
       @ ''## Technical Requirements'' @ nl @ ''[List technical requirements]'' @ nl
       @ nl @ ''</project_specification>'' @ nl"

text \<open>
  \<open>Path(args.get("path") or str(PROJECTS_DIR / name))\<close>: the operator \<open>/\<close> and the
  constructor take strings only.
\<close>

definition init_project_dir :: "layout \<Rightarrow> pyval \<Rightarrow> pyval \<Rightarrow> py_exc + path" where
  "init_project_dir lay path_arg name =
     bindE (if py_truthy path_arg then Inr path_arg
            else (case name of
                    PStr n \<Rightarrow> Inr (PStr (path_str (pjoin (PROJECTS_DIR lay) n)))
                  | _ \<Rightarrow> Inl TypeError)) (\<lambda>project_path.
       case project_path of
         PStr s \<Rightarrow> Inr (path_of_str s)
       | _ \<Rightarrow> Inl TypeError)"

definition init_result :: "runtime \<Rightarrow> pyval \<Rightarrow> path \<Rightarrow> pyval" where
  "init_result rt name project_dir =
     PDict
      [(''status'', PStr ''ok''),
       (''summary'', PStr (''Initialized project '' @ sq @ fmt rt name @ sq)),
       (''project_path'', PStr (path_str project_dir)),
       (''artifacts'',
        PList [PDict [(''type'', PStr ''directory''), (''path'', PStr (path_str project_dir))],
               file_artifact (pjoin (pjoin project_dir ''prompts'') ''app_spec.txt''),
               file_artifact (pjoin (pjoin project_dir ''.autoforge'') ''tasks.json'')]),
       (''next_steps'',
        PList [PStr (''Run '' @ sq @ ''plan'' @ sq
                     @ '' with your requirements to generate a detailed spec''),
               PStr (''Run '' @ sq @ ''build'' @ sq
                     @ '' to start building with sub-agents'')])]"

definition cmd_init :: "runtime \<Rightarrow> layout \<Rightarrow> pyval \<Rightarrow> fsys \<Rightarrow> (py_exc + pyval) \<times> fsys" where
  "cmd_init rt lay args =
     thenS (pureS (py_get args ''name'' PNone)) (\<lambda>name.
       if \<not> py_truthy name then pureS (Inr (error_result ''Project name is required''))
       else
         thenS (pureS (py_get args ''path'' PNone)) (\<lambda>path_arg.
         thenS (pureS (init_project_dir lay path_arg name)) (\<lambda>project_dir.
         thenS (mkdir_parents_at (locate lay project_dir)) (\<lambda>_.
         thenS (mkdir_at (locate lay (pjoin project_dir ''prompts''))) (\<lambda>_.
         thenS (mkdir_at (locate lay (pjoin project_dir ''.autoforge''))) (\<lambda>_.
         thenS (mkdir_at (locate lay (pjoin project_dir ''src''))) (\<lambda>_.
         (let spec_file = pjoin (pjoin project_dir ''prompts'') ''app_spec.txt'';
              tasks_file = pjoin (pjoin project_dir ''.autoforge'') ''tasks.json''
          in
            thenS (\<lambda>fs. if \<not> exists_path lay fs spec_file
                        then write_at (locate lay spec_file) (spec_template rt name) fs
                        else (Inr (), fs)) (\<lambda>_.
            thenS (\<lambda>fs. if \<not> exists_path lay fs tasks_file
                        then write_at (locate lay tasks_file)
                               (json_dumps rt (PDict [(''tasks'', PList []),
                                                      (''completed'', PList [])])) fs
                        else (Inr (), fs)) (\<lambda>_.
              pureS (Inr (init_result rt name project_dir))))))))))))"

subsection \<open>\<open>plan\<close>\<close>

definition planning_prompt :: "runtime \<Rightarrow> string \<Rightarrow> pyval \<Rightarrow> string" where
  "planning_prompt rt project requirements =
     ''You are a technical architect. Create a detailed project specification ''
       @ ''and task breakdown.'' @ nl @ nl @ ''PROJECT: '' @ project @ nl @ nl
       @ ''REQUIREMENTS:'' @ nl @ fmt rt requirements @ nl @ nl @ ''Please provide:''
       @ nl @ nl @ ''1. **Project Specification** (in <project_specification> tags):''
       @ nl @ ''   - Clear project overview'' @ nl
       @ ''   - Detailed feature list with acceptance criteria'' @ nl
       @ ''   - Technical stack recommendations'' @ nl @ ''   - Architecture decisions''
       @ nl @ nl @ ''2. **Task Breakdown** (as JSON):'' @ nl
       @ ''   Return a JSON object with this structure:'' @ nl @ ''   {'' @ nl
       @ ''     '' @ dq @ ''tasks'' @ dq @ '': ['' @ nl @ ''       {'' @ nl
       @ ''         '' @ dq @ ''id'' @ dq @ '': '' @ dq @ ''task-1'' @ dq @ '','' @ nl
       @ ''         '' @ dq @ ''name'' @ dq @ '': '' @ dq @ ''Setup project structure''
       @ dq @ '','' @ nl @ ''         '' @ dq @ ''description'' @ dq @ '': '' @ dq
       @ ''Initialize the project with required dependencies'' @ dq @ '','' @ nl
       @ ''         '' @ dq @ ''dependencies'' @ dq @ '': [],'' @ nl @ ''         ''
       @ dq @ ''estimated_complexity'' @ dq @ '': '' @ dq @ ''low|medium|high'' @ dq
       @ nl @ ''       }'' @ nl @ ''     ]'' @ nl @ ''   }'' @ nl @ nl
       @ ''Be specific and actionable. Each task should be completable ''
       @ ''by a focused coding agent.'' @ nl"

text \<open>The position of the first occurrence of a text (\<open>str.find\<close>, and the literal parts
  of the two regular expressions below).\<close>

fun find_sub :: "string \<Rightarrow> string \<Rightarrow> nat option" where
  "find_sub pat [] = (if pat = [] then Some 0 else None)"
| "find_sub pat (c # cs) =
     (if prefix pat (c # cs) then Some 0 else map_option Suc (find_sub pat cs))"

text \<open>
  \<open>re.search(r'<project_specification>(.*?)</project_specification>', output,
  re.DOTALL)\<close>, returning \<open>group(1)\<close>: from the first opening tag to the first closing
  tag after it.
\<close>

definition search_spec :: "string \<Rightarrow> string option" where
  "search_spec output =
     (case find_sub ''<project_specification>'' output of
        None \<Rightarrow> None
      | Some i \<Rightarrow>
          (let rest = drop (i + length ''<project_specification>'') output
           in map_option (\<lambda>j. take j rest) (find_sub ''</project_specification>'' rest)))"

text \<open>
  \<open>re.search(r'\{[\s\S]*"tasks"[\s\S]*\}', output)\<close>, returning \<open>group()\<close>: from the
  first brace after which \<open>"tasks"\<close> and then a closing brace occur, to the last closing
  brace of the text.
\<close>

definition search_tasks :: "string \<Rightarrow> string option" where
  "search_tasks output =
     (case find_sub ''{'' output of
        None \<Rightarrow> None
      | Some i \<Rightarrow>
          (let rest = drop (Suc i) output
           in case find_sub (dq @ ''tasks'' @ dq) rest of
                None \<Rightarrow> None
              | Some j \<Rightarrow>
                  (let tail = drop (j + 7) rest
                   in if CHR ''}'' \<in> set tail
                      then Some (rev (dropWhile (\<lambda>c. c \<noteq> CHR ''}'') (rev (drop i output))))
                      else None)))"

text \<open>What follows the call of \<open>sessions_spawn\<close> in \<open>cmd_plan\<close>.\<close>

definition plan_finish ::
  "runtime \<Rightarrow> layout \<Rightarrow> string \<Rightarrow> path \<Rightarrow> path \<Rightarrow> pyval \<Rightarrow> fsys \<Rightarrow> (py_exc + pyval) \<times> fsys" where
  "plan_finish rt lay project spec_file tasks_file spawn_result =
     thenS (pureS (py_get spawn_result ''status'' PNone)) (\<lambda>status.
       if py_eq status (PStr ''pending'') then
         thenS (pureS (py_item spawn_result ''action'')) (\<lambda>action.
           pureS (Inr (PDict [(''status'', PStr ''pending''),
                              (''summary'', PStr ''Planning requires OpenClaw sub-agent''),
                              (''action_required'', action),
                              (''artifacts'', PList [])])))
       else if py_eq status (PStr ''error'') then
         thenS (pureS (py_get spawn_result ''error'' PNone)) (\<lambda>err.
           pureS (Inr (error_result (''Planning failed: '' @ fmt rt err))))
       else
         thenS (pureS (py_get spawn_result ''output'' (PStr []))) (\<lambda>output_value.
           case output_value of
             PStr output \<Rightarrow>
               thenS (\<lambda>fs. case search_spec output of
                              Some g \<Rightarrow>
                                write_at (locate lay spec_file)
                                  (''<project_specification>'' @ g
                                   @ ''</project_specification>'') fs
                            | None \<Rightarrow> (Inr (), fs)) (\<lambda>_.
               thenS (\<lambda>fs. case search_tasks output of
                              Some g \<Rightarrow>
                                (case json_loads rt g of
                                   Some tasks_data \<Rightarrow>
                                     write_at (locate lay tasks_file)
                                       (json_dumps rt tasks_data) fs
                                 | None \<Rightarrow> (Inr (), fs))
                            | None \<Rightarrow> (Inr (), fs)) (\<lambda>_.
                 pureS (Inr (PDict [(''status'', PStr ''ok''),
                                    (''summary'',
                                     PStr (''Generated plan for '' @ sq @ project @ sq)),
                                    (''artifacts'',
                                     PList [file_artifact spec_file, file_artifact tasks_file]),
                                    (''sub_agent_result'', spawn_result)]))))
           | _ \<Rightarrow> pureS (Inl TypeError)))"

definition cmd_plan :: "runtime \<Rightarrow> layout \<Rightarrow> pyval \<Rightarrow> fsys \<Rightarrow> (py_exc + pyval) \<times> fsys" where
  "cmd_plan rt lay args =
     thenS (pureS (py_get args ''project'' PNone)) (\<lambda>project_value.
     thenS (pureS (py_get args ''requirements'' PNone)) (\<lambda>requirements.
       if \<not> py_truthy project_value
       then pureS (Inr (error_result ''Project name is required''))
       else if \<not> py_truthy requirements
       then pureS (Inr (error_result ''Requirements are required''))
       else
         (case project_value of
            PStr project \<Rightarrow>
              (let project_dir = pjoin (PROJECTS_DIR lay) project
               in (\<lambda>fs.
                    if \<not> exists_path lay fs project_dir
                    then (Inr (error_result
                                 (''Project '' @ sq @ project @ sq @ '' not found. Run ''
                                  @ sq @ ''init'' @ sq @ '' first.'')), fs)
                    else
                      plan_finish rt lay project
                        (pjoin (pjoin project_dir ''prompts'') ''app_spec.txt'')
                        (pjoin (pjoin project_dir ''.autoforge'') ''tasks.json'')
                        (sessions_spawn (planning_prompt rt project requirements)
                           (''autoforge-plan-'' @ project) 300) fs))
          | _ \<Rightarrow> pureS (Inl TypeError))))"

subsection \<open>\<open>build\<close>\<close>

definition build_prompt ::
  "runtime \<Rightarrow> string \<Rightarrow> path \<Rightarrow> string \<Rightarrow> pyval \<Rightarrow> pyval \<Rightarrow> pyval \<Rightarrow> pyval \<Rightarrow> string" where
  "build_prompt rt project project_dir spec_content task_id task_name task_description
       task_dependencies =
     ''You are a coding agent. Implement the following task.'' @ nl @ nl
       @ ''PROJECT: '' @ project @ nl @ ''WORKING DIRECTORY: '' @ path_str project_dir
       @ nl @ nl @ ''SPECIFICATION:'' @ nl @ take 2000 spec_content @ nl @ nl
       @ ''CURRENT TASK:'' @ nl @ ''ID: '' @ fmt rt task_id @ nl @ ''Name: ''
       @ fmt rt task_name @ nl @ ''Description: '' @ fmt rt task_description @ nl @ nl
       @ ''Dependencies: '' @ fmt rt task_dependencies @ nl @ nl @ ''Please:'' @ nl
       @ ''1. Implement this task completely'' @ nl
       @ ''2. Create/modify the necessary files'' @ nl
       @ ''3. Write tests if applicable'' @ nl
       @ ''4. Provide a summary of changes made'' @ nl @ nl
       @ ''Be thorough and production-ready.'' @ nl"

text \<open>
  The comprehension that keeps the tasks matching \<open>feature\<close>; \<open>fl\<close> is
  \<open>feature.lower()\<close>. The second operand of \<open>or\<close> is evaluated only when the first
  is false.
\<close>

fun feature_filter :: "string \<Rightarrow> pyval list \<Rightarrow> py_exc + pyval list" where
  "feature_filter fl [] = Inr []"
| "feature_filter fl (t # ts) =
     bindE (py_get t ''name'' (PStr [])) (\<lambda>name.
       case name of
         PStr n \<Rightarrow>
           if sublist fl (lower n)
           then bindE (feature_filter fl ts) (\<lambda>r. Inr (t # r))
           else
             bindE (py_get t ''description'' (PStr [])) (\<lambda>description.
               case description of
                 PStr d \<Rightarrow>
                   bindE (feature_filter fl ts) (\<lambda>r. Inr (if sublist fl (lower d) then t # r else r))
               | _ \<Rightarrow> Inl AttributeError)
       | _ \<Rightarrow> Inl AttributeError)"

text \<open>\<open>[t for t in tasks if t.get("id") not in completed]\<close>\<close>

fun pending_filter :: "pyval \<Rightarrow> pyval list \<Rightarrow> py_exc + pyval list" where
  "pending_filter completed [] = Inr []"
| "pending_filter completed (t # ts) =
     bindE (py_get t ''id'' PNone) (\<lambda>task_id.
     bindE (py_in task_id completed) (\<lambda>done.
     bindE (pending_filter completed ts) (\<lambda>r.
       Inr (if done then r else t # r))))"

text \<open>The tasks after the optional filter by \<open>feature\<close>.\<close>

definition select_tasks :: "pyval \<Rightarrow> pyval \<Rightarrow> py_exc + pyval" where
  "select_tasks feature tasks =
     (if py_truthy feature
      then bindE (py_iter tasks) (\<lambda>ts.
             case feature of
               PStr f \<Rightarrow> bindE (feature_filter (lower f) ts) (\<lambda>r. Inr (PList r))
             | _ \<Rightarrow> Inl AttributeError)
      else Inr tasks)"

text \<open>What follows the call of \<open>sessions_spawn\<close> in \<open>cmd_build\<close>.\<close>

definition build_finish ::
  "runtime \<Rightarrow> layout \<Rightarrow> path \<Rightarrow> pyval \<Rightarrow> pyval \<Rightarrow> pyval \<Rightarrow> pyval \<Rightarrow> pyval list \<Rightarrow> pyval
     \<Rightarrow> fsys \<Rightarrow> (py_exc + pyval) \<times> fsys" where
  "build_finish rt lay tasks_file tasks_data tasks completed task pending_tasks spawn_result =
     thenS (pureS (py_get task ''name'' PNone)) (\<lambda>task_name.
     thenS (pureS (py_get spawn_result ''status'' PNone)) (\<lambda>status.
       if py_eq status (PStr ''pending'') then
         thenS (pureS (py_item spawn_result ''action'')) (\<lambda>action.
           pureS (Inr (PDict [(''status'', PStr ''pending''),
                              (''summary'',
                               PStr (''Build task '' @ sq @ fmt rt task_name @ sq
                                     @ '' requires OpenClaw sub-agent'')),
                              (''task'', task),
                              (''action_required'', action),
                              (''artifacts'', PList [])])))
       else if py_eq status (PStr ''error'') then
         thenS (pureS (py_get spawn_result ''error'' PNone)) (\<lambda>err.
           pureS (Inr (PDict [(''status'', PStr ''error''),
                              (''summary'', PStr (''Build failed: '' @ fmt rt err)),
                              (''task'', task),
                              (''artifacts'', PList [])])))
       else
         thenS (pureS (py_get task ''id'' PNone)) (\<lambda>task_id.
           case (completed, tasks_data) of
             (PList done, PDict kvs) \<Rightarrow>
               (let completed' = PList (done @ [task_id]);
                    tasks_data' = PDict (AList.update ''completed'' completed' kvs)
                in
                  thenS (write_at (locate lay tasks_file) (json_dumps rt tasks_data')) (\<lambda>_.
                  thenS (pureS (py_len tasks)) (\<lambda>total.
                    pureS (Inr (PDict
                      [(''status'', PStr ''ok''),
                       (''summary'', PStr (''Completed task: '' @ fmt rt task_name)),
                       (''task'', task),
                       (''progress'',
                        PDict [(''completed'', PInt (int (length done) + 1)),
                               (''total'', PInt total),
                               (''remaining'', PInt (int (length pending_tasks) - 1))]),
                       (''artifacts'', PList []),
                       (''sub_agent_result'', spawn_result),
                       (''next'', (if length pending_tasks > 1 then pending_tasks ! 1
                                   else PNone))])))))
           | _ \<Rightarrow> pureS (Inl AttributeError))))"

text \<open>\<open>cmd_build\<close> from the loaded \<open>tasks_data\<close> on.\<close>

definition build_tasks ::
  "runtime \<Rightarrow> layout \<Rightarrow> string \<Rightarrow> path \<Rightarrow> pyval \<Rightarrow> pyval \<Rightarrow> fsys \<Rightarrow> (py_exc + pyval) \<times> fsys" where
  "build_tasks rt lay project project_dir feature tasks_data =
     (let tasks_file = pjoin (pjoin project_dir ''.autoforge'') ''tasks.json'';
          spec_file = pjoin (pjoin project_dir ''prompts'') ''app_spec.txt''
      in
        thenS (pureS (py_get tasks_data ''tasks'' (PList []))) (\<lambda>all_tasks.
        thenS (pureS (py_get tasks_data ''completed'' (PList []))) (\<lambda>completed.
          if \<not> py_truthy all_tasks
          then pureS (Inr (error_result (''No tasks defined. Run '' @ sq @ ''plan'' @ sq
                                         @ '' first.'')))
          else
            thenS (\<lambda>fs. (if exists_path lay fs spec_file
                         then read_at (locate lay spec_file) fs else Inr [], fs)) (\<lambda>spec_content.
            thenS (pureS (select_tasks feature all_tasks)) (\<lambda>tasks.
            thenS (pureS (py_iter tasks)) (\<lambda>ts.
            thenS (pureS (pending_filter completed ts)) (\<lambda>pending_tasks.
              case pending_tasks of
                [] \<Rightarrow>
                  thenS (pureS (py_len completed)) (\<lambda>n_completed.
                  thenS (pureS (py_len tasks)) (\<lambda>n_total.
                    pureS (Inr (PDict
                      [(''status'', PStr ''ok''),
                       (''summary'',
                        PStr (''All tasks completed for '' @ sq @ project @ sq @ ''!'')),
                       (''completed'', PInt n_completed),
                       (''total'', PInt n_total),
                       (''artifacts'', PList [])]))))
              | task # _ \<Rightarrow>
                  thenS (pureS (py_get task ''id'' PNone)) (\<lambda>task_id.
                  thenS (pureS (py_get task ''name'' PNone)) (\<lambda>task_name.
                  thenS (pureS (py_get task ''description'' PNone)) (\<lambda>task_description.
                  thenS (pureS (py_get task ''dependencies'' (PList []))) (\<lambda>task_dependencies.
                    build_finish rt lay tasks_file tasks_data tasks completed task
                      pending_tasks
                      (sessions_spawn
                         (build_prompt rt project project_dir spec_content task_id task_name
                            task_description task_dependencies)
                         (''autoforge-build-'' @ project @ ''-'' @ fmt rt task_id) 600))))))))))))"

definition cmd_build :: "runtime \<Rightarrow> layout \<Rightarrow> pyval \<Rightarrow> fsys \<Rightarrow> (py_exc + pyval) \<times> fsys" where
  "cmd_build rt lay args =
     thenS (pureS (py_get args ''project'' PNone)) (\<lambda>project_value.
     thenS (pureS (py_get args ''feature'' PNone)) (\<lambda>feature.
       if \<not> py_truthy project_value
       then pureS (Inr (error_result ''Project name is required''))
       else
         (case project_value of
            PStr project \<Rightarrow>
              (let project_dir = pjoin (PROJECTS_DIR lay) project;
                   tasks_file = pjoin (pjoin project_dir ''.autoforge'') ''tasks.json''
               in (\<lambda>fs.
                    if \<not> exists_path lay fs project_dir
                    then (Inr (error_result (''Project '' @ sq @ project @ sq @ '' not found'')),
                          fs)
                    else if \<not> exists_path lay fs tasks_file
                    then (Inr (error_result (''No tasks found. Run '' @ sq @ ''plan'' @ sq
                                             @ '' first.'')), fs)
                    else
                      (case read_at (locate lay tasks_file) fs of
                         Inl e \<Rightarrow> (Inl e, fs)
                       | Inr text \<Rightarrow>
                           (case json_loads rt text of
                              None \<Rightarrow> (Inl JSONDecodeError, fs)
                            | Some tasks_data \<Rightarrow>
                                build_tasks rt lay project project_dir feature tasks_data fs))))
          | _ \<Rightarrow> pureS (Inl TypeError))))"

subsection \<open>\<open>status\<close>\<close>

text \<open>
  \<open>tasks_data = {}\<close>, replaced by the parsed tasks file when it exists and can be read
  and parsed; the bare \<open>except\<close> swallows every failure.
\<close>

definition load_tasks_quietly :: "runtime \<Rightarrow> layout \<Rightarrow> fsys \<Rightarrow> path \<Rightarrow> pyval" where
  "load_tasks_quietly rt lay fs tasks_file =
     (if exists_path lay fs tasks_file
      then (case read_at (locate lay tasks_file) fs of
              Inl e \<Rightarrow> PDict []
            | Inr text \<Rightarrow> (case json_loads rt text of None \<Rightarrow> PDict [] | Some d \<Rightarrow> d))
      else PDict [])"

text \<open>\<open>PROJECTS_DIR.iterdir()\<close>: the entries directly below a location.\<close>

definition iterdir_at :: "string list \<Rightarrow> fsys \<Rightarrow> py_exc + (string list \<times> ent) list" where
  "iterdir_at k fs =
     (case lookup fs k of
        Some DirE \<Rightarrow> Inr (filter (\<lambda>(q, e). q \<noteq> [] \<and> butlast q = k) fs)
      | Some (FileE _) \<Rightarrow> Inl NotADirectoryError
      | None \<Rightarrow> Inl (FileNotFoundError (join ''/'' k)))"

definition project_summary :: "runtime \<Rightarrow> layout \<Rightarrow> fsys \<Rightarrow> string list \<Rightarrow> py_exc + pyval" where
  "project_summary rt lay fs q =
     (let p = (True, q);
          tasks_data = load_tasks_quietly rt lay fs (pjoin (pjoin p ''.autoforge'') ''tasks.json'')
      in bindE (py_get tasks_data ''tasks'' (PList [])) (\<lambda>tasks.
         bindE (py_len tasks) (\<lambda>n_tasks.
         bindE (py_get tasks_data ''completed'' (PList [])) (\<lambda>completed.
         bindE (py_len completed) (\<lambda>n_completed.
           Inr (PDict [(''name'', PStr (last q)),
                       (''path'', PStr (path_str p)),
                       (''has_spec'',
                        PBool (exists_path lay fs (pjoin (pjoin p ''prompts'') ''app_spec.txt''))),
                       (''tasks'', PInt n_tasks),
                       (''completed'', PInt n_completed)]))))))"

fun project_summaries ::
  "runtime \<Rightarrow> layout \<Rightarrow> fsys \<Rightarrow> (string list \<times> ent) list \<Rightarrow> py_exc + pyval list" where
  "project_summaries rt lay fs [] = Inr []"
| "project_summaries rt lay fs ((q, e) # rest) =
     (if e = DirE \<and> \<not> prefix ''.'' (last q)
      then bindE (project_summary rt lay fs q) (\<lambda>s.
           bindE (project_summaries rt lay fs rest) (\<lambda>r. Inr (s # r)))
      else project_summaries rt lay fs rest)"

definition status_all :: "runtime \<Rightarrow> layout \<Rightarrow> fsys \<Rightarrow> py_exc + pyval" where
  "status_all rt lay fs =
     (if \<not> exists_path lay fs (PROJECTS_DIR lay)
      then Inr (PDict [(''status'', PStr ''ok''), (''summary'', PStr ''No projects found''),
                       (''projects'', PList []), (''artifacts'', PList [])])
      else bindE (iterdir_at (locate lay (PROJECTS_DIR lay)) fs) (\<lambda>entries.
           bindE (project_summaries rt lay fs entries) (\<lambda>projects.
             Inr (PDict [(''status'', PStr ''ok''),
                         (''summary'',
                          PStr (''Found '' @ py_str rt (PInt (int (length projects)))
                                @ '' project(s)'')),
                         (''projects'', PList projects),
                         (''artifacts'', PList [])]))))"

definition status_one :: "runtime \<Rightarrow> layout \<Rightarrow> fsys \<Rightarrow> string \<Rightarrow> py_exc + pyval" where
  "status_one rt lay fs project =
     (let project_dir = pjoin (PROJECTS_DIR lay) project
      in if \<not> exists_path lay fs project_dir
         then Inr (error_result (''Project '' @ sq @ project @ sq @ '' not found''))
         else
           (let spec_file = pjoin (pjoin project_dir ''prompts'') ''app_spec.txt'';
                tasks_file = pjoin (pjoin project_dir ''.autoforge'') ''tasks.json'';
                tasks_data = load_tasks_quietly rt lay fs tasks_file
            in bindE (py_get tasks_data ''tasks'' (PList [])) (\<lambda>tasks.
               bindE (py_get tasks_data ''completed'' (PList [])) (\<lambda>completed.
               bindE (py_len tasks) (\<lambda>n_total.
               bindE (py_len completed) (\<lambda>n_completed.
               bindE (py_iter tasks) (\<lambda>ts.
               bindE (pending_filter completed ts) (\<lambda>pending.
                 Inr (PDict
                   [(''status'', PStr ''ok''),
                    (''summary'', PStr (''Project '' @ sq @ project @ sq @ '' status'')),
                    (''project'',
                     PDict [(''name'', PStr project),
                            (''path'', PStr (path_str project_dir)),
                            (''has_spec'', PBool (exists_path lay fs spec_file)),
                            (''tasks'',
                             PDict [(''total'', PInt n_total),
                                    (''completed'', PInt n_completed),
                                    (''pending'', PInt (int (length pending)))])]),
                    (''pending_tasks'', PList (take 5 pending)),
                    (''artifacts'', PList [])])))))))))"

definition cmd_status :: "runtime \<Rightarrow> layout \<Rightarrow> pyval \<Rightarrow> fsys \<Rightarrow> (py_exc + pyval) \<times> fsys" where
  "cmd_status rt lay args =
     thenS (pureS (py_get args ''project'' PNone)) (\<lambda>project_value.
       (\<lambda>fs.
         if \<not> py_truthy project_value then (status_all rt lay fs, fs)
         else (case project_value of
                 PStr project \<Rightarrow> (status_one rt lay fs project, fs)
               | _ \<Rightarrow> (Inl TypeError, fs))))"

subsection \<open>\<open>main\<close>\<close>

definition load_request :: "runtime \<Rightarrow> layout \<Rightarrow> fsys \<Rightarrow> py_exc + pyval" where
  "load_request rt lay fs =
     (let request_file = pjoin (INPUT_DIR lay) ''request.json''
      in if \<not> exists_path lay fs request_file
         then Inr (PDict [(''command'', PStr ''help''), (''args'', PDict [])])
         else bindE (read_at (locate lay request_file) fs) (\<lambda>text.
                case json_loads rt text of
                  None \<Rightarrow> Inl JSONDecodeError
                | Some request \<Rightarrow> Inr request))"

definition save_result :: "runtime \<Rightarrow> layout \<Rightarrow> pyval \<Rightarrow> fsys \<Rightarrow> (py_exc + unit) \<times> fsys" where
  "save_result rt lay result =
     thenS (mkdir_parents_at (locate lay (OUTPUT_DIR lay))) (\<lambda>_.
       write_at (locate lay (pjoin (OUTPUT_DIR lay) ''result.json'')) (json_dumps rt result))"

definition COMMANDS :: "string list" where
  "COMMANDS = [''help'', ''init'', ''plan'', ''build'', ''status'']"

text \<open>\<open>COMMANDS[command](args)\<close> for a command of the table.\<close>

definition run_command ::
  "runtime \<Rightarrow> layout \<Rightarrow> string \<Rightarrow> pyval \<Rightarrow> fsys \<Rightarrow> (py_exc + pyval) \<times> fsys" where
  "run_command rt lay c args =
     (if c = ''help'' then pureS (Inr (cmd_help args))
      else if c = ''init'' then cmd_init rt lay args
      else if c = ''plan'' then cmd_plan rt lay args
      else if c = ''build'' then cmd_build rt lay args
      else cmd_status rt lay args)"

text \<open>
  The statements of \<open>main\<close> up to \<open>save_result\<close>: the result that was saved.
  \<open>command in COMMANDS\<close> hashes the command, which a list or a dictionary does not
  allow.
\<close>

definition main_result :: "runtime \<Rightarrow> layout \<Rightarrow> fsys \<Rightarrow> (py_exc + pyval) \<times> fsys" where
  "main_result rt lay =
     thenS (\<lambda>fs. (load_request rt lay fs, fs)) (\<lambda>request.
     thenS (pureS (py_get request ''command'' (PStr ''help''))) (\<lambda>command.
     thenS (pureS (py_get request ''args'' (PDict []))) (\<lambda>args.
     thenS (pureS (py_in command (PDict (map (\<lambda>c. (c, PNone)) COMMANDS)))) (\<lambda>known.
     thenS (if known
            then (case command of
                    PStr c \<Rightarrow> run_command rt lay c args
                  | _ \<Rightarrow> pureS (Inl KeyError))
            else pureS (Inr (PDict
                   [(''status'', PStr ''error''),
                    (''summary'', PStr (''Unknown command: '' @ fmt rt command)),
                    (''available_commands'', PList (map PStr COMMANDS)),
                    (''artifacts'', PList [])]))) (\<lambda>result.
     thenS (pureS (setdefault result ''command'' command)) (\<lambda>result1.
     thenS (pureS (setdefault result1 ''artifacts'' (PList []))) (\<lambda>result2.
     thenS (save_result rt lay result2) (\<lambda>_.
       pureS (Inr result2)))))))))"

text \<open>
  \<open>main\<close>: the exit status of the process, the result that was saved (if the run got
  that far) and the files after the run. \<open>sys.exit(0 if result.get("status") == "ok"
  else 1)\<close>; an exception that nothing catches ends the process with status 1.
\<close>

definition main :: "runtime \<Rightarrow> layout \<Rightarrow> fsys \<Rightarrow> (int \<times> pyval option) \<times> fsys" where
  "main rt lay fs =
     (case main_result rt lay fs of
        (Inl e, fs') \<Rightarrow> ((1, None), fs')
      | (Inr result, fs') \<Rightarrow>
          (case py_get result ''status'' PNone of
             Inl e \<Rightarrow> ((1, Some result), fs')
           | Inr status \<Rightarrow> ((if py_eq status (PStr ''ok'') then 0 else 1, Some result), fs')))"

section \<open>Sample inputs\<close>

text \<open>
  Texts of manifests and a runtime for the concrete evaluations below: the parsers are
  given by the documents they are applied to, every other text is malformed.
\<close>

definition json_desc_a :: string where
  \<open>json_desc_a = ''{"description": "a"}''\<close>

definition json_scripts :: string where
  \<open>json_scripts = ''{"name": "web_app", "scripts": {"start": "node ."}}''\<close>

definition request_deploy :: string where
  \<open>request_deploy = ''{"command": "deploy"}''\<close>

definition tasks_none :: string where
  \<open>tasks_none = ''{"tasks": [], "completed": []}''\<close>

definition tasks_done :: string where
  \<open>tasks_done = ''{"tasks": [{"id": "t1", "name": "Setup"}], "completed": ["t1"]}''\<close>


definition sample_json :: "(string \<times> pyval) list" where
  "sample_json =
    [(json_desc_a, PDict [(''description'', PStr ''a'')]),
     (json_scripts,
      PDict [(''name'', PStr ''web_app''),
             (''scripts'', PDict [(''start'', PStr ''node .'')])]),
     (request_deploy, PDict [(''command'', PStr ''deploy'')]),
     (tasks_none, PDict [(''tasks'', PList []), (''completed'', PList [])]),
     (tasks_done,
      PDict [(''tasks'', PList [PDict [(''id'', PStr ''t1''), (''name'', PStr ''Setup'')]]),
             (''completed'', PList [PStr ''t1''])])]"

definition toml_full :: string where
  \<open>toml_full =
     ''[project]'' @ [CHR 0x0A] @ ''name = "py_name"'' @ [CHR 0x0A]
     @ ''version = "2.0"'' @ [CHR 0x0A] @ ''description = "p"''\<close>

definition toml_name_only :: string where
  \<open>toml_name_only = ''[project]'' @ [CHR 0x0A] @ ''name = "py_name"''\<close>


definition sample_toml :: "(string \<times> pyval) list" where
  "sample_toml =
    [(toml_full,
      PDict [(''project'',
              PDict [(''name'', PStr ''py_name''), (''version'', PStr ''2.0''),
                     (''description'', PStr ''p'')])]),
     (toml_name_only, PDict [(''project'', PDict [(''name'', PStr ''py_name'')])])]"

definition sample_runtime :: "nat \<Rightarrow> runtime" where
  "sample_runtime seed =
     \<lparr>json_loads = map_of sample_json, toml_loads = map_of sample_toml,
      tomllib_available = True, json_dumps = (\<lambda>v. ''?''), py_str = (\<lambda>v. ''?''),
      hash_seed = seed\<rparr>"

definition notes_repo :: repository where
  "notes_repo =
     \<lparr>repo_name = ''notes'', repo_listable = True,
      repo_entries =
        [File ''notes.txt'' (Text ''hello''), Dir ''doc'' True [File ''a.md'' (Text [])]]\<rparr>"





definition bad_toml_repo :: repository where
  "bad_toml_repo =
     \<lparr>repo_name = ''bad'', repo_listable = True,
      repo_entries = [File ''pyproject.toml'' (Text ''name = '')]\<rparr>"

definition bad_json_repo :: repository where
  "bad_json_repo =
     \<lparr>repo_name = ''bad'', repo_listable = True,
      repo_entries = [File ''package.json'' (Text ''{'')]\<rparr>"

definition failing_clone :: surroundings where
  "failing_clone =
     \<lparr>fresh_temp = ''/tmp/repo-skill-gen-x1'', clone = (\<lambda>url. CloneFailed),
      local_repo = (\<lambda>p. None), cwd = ''/home/user'', output_error = None\<rparr>"

definition makefile_dup :: string where
  "makefile_dup = ''test: unit'' @ nl @ ''test: lint'' @ nl"

definition dup_repo :: repository where
  "dup_repo =
     \<lparr>repo_name = ''dup'', repo_listable = True,
      repo_entries = [File ''Makefile'' (Text makefile_dup)]\<rparr>"

definition makefile_three :: string where
  "makefile_three = ''dev: all'' @ nl @ ''test:'' @ nl @ [CHR 0x09] @ ''pytest'' @ nl @ ''all: test''"

definition make_repo :: repository where
  "make_repo =
     \<lparr>repo_name = ''web_app'', repo_listable = True,
      repo_entries =
        [File ''Makefile'' (Text makefile_three),
         File ''package.json'' (Text json_scripts),
         Dir ''src'' True [File ''main.py'' (Text [])]]\<rparr>"

definition makefile_twelve :: string where
  "makefile_twelve =
     ''t0:'' @ nl @ ''t1:'' @ nl @ ''t2:'' @ nl @ ''t3:'' @ nl @ ''t4:'' @ nl @ ''t5:'' @ nl
     @ ''t6:'' @ nl @ ''t7:'' @ nl @ ''t8:'' @ nl @ ''t9:'' @ nl @ ''test:'' @ nl @ ''t0: t1''
     @ nl"

definition twelve_repo :: repository where
  "twelve_repo =
     \<lparr>repo_name = ''twelve'', repo_listable = True,
      repo_entries = [File ''Makefile'' (Text makefile_twelve)]\<rparr>"

definition nested_repo :: repository where
  "nested_repo =
     \<lparr>repo_name = ''nested'', repo_listable = True,
      repo_entries = [File ''c.txt'' (Text []), Dir ''a'' True [File ''b.txt'' (Text [])]]\<rparr>"


text \<open>
  The files of the wrapper for the evaluations: the skill is installed in
  \<open>/opt/autoforge\<close> and has one project, \<open>demo\<close>.
\<close>

definition lay0 :: layout where
  "lay0 = \<lparr>skill_dir = [''opt'', ''autoforge''], work_dir = [''home'', ''user'']\<rparr>"

definition demo_dir :: "string list" where
  "demo_dir = [''opt'', ''autoforge'', ''projects'', ''demo'']"

definition fs_base :: fsys where
  "fs_base =
     [([''opt''], DirE), ([''opt'', ''autoforge''], DirE),
      ([''opt'', ''autoforge'', ''projects''], DirE), (demo_dir, DirE)]"

definition fs_spec_only :: fsys where
  "fs_spec_only =
     fs_base @ [(demo_dir @ [''prompts''], DirE),
                (demo_dir @ [''prompts'', ''app_spec.txt''], FileE ''my spec'')]"

definition fs_tasks :: "string \<Rightarrow> fsys" where
  "fs_tasks text =
     fs_base @ [(demo_dir @ [''.autoforge''], DirE),
                (demo_dir @ [''.autoforge'', ''tasks.json''], FileE text)]"

definition fs_request :: "string \<Rightarrow> fsys" where
  "fs_request text =
     fs_base @ [([''opt'', ''autoforge'', ''input''], DirE),
                ([''opt'', ''autoforge'', ''input'', ''request.json''], FileE text)]"

section \<open>Verified properties\<close>

lemma bindE_simps [simp]: "bindE (Inl e) f = Inl e" "bindE (Inr v) f = f v"
  by (simp_all add: bindE_def)


text \<open>\<open>AttributeError\<close> is the only exception of \<open>get\<close> and \<open>keys\<close>.\<close>

lemma py_get_Inl: "py_get p k d = Inl e \<Longrightarrow> e = AttributeError"
  by (cases p) auto

lemma py_keys_Inl: "py_keys p = Inl e \<Longrightarrow> e = AttributeError"
  by (cases p) auto

subsection \<open>Classification\<close>

declare nth_perm.simps [simp del]

lemma nth_perm_Nil [simp]: "nth_perm n [] = []"
  by (simp add: nth_perm.simps)

lemma nth_perm_single [simp]: "nth_perm n [x] = [x]"
  by (simp add: nth_perm.simps [of n "[x]"])

lemma nth_perm_empty_iff [simp]: "nth_perm n xs = [] \<longleftrightarrow> xs = []"
  by (subst nth_perm.simps) (simp add: Let_def)

lemma any_signature_list_ex: "any_signature fns sigs = list_ex (sig_matches fns) sigs"
  by (induction sigs) auto

lemma collect_types_filter:
  "collect_types fns sigs types =
     types @ map fst (filter (\<lambda>(t, ss). any_signature fns ss) sigs)"
  by (induction sigs arbitrary: types) auto

text \<open>No signature of any project type matches a file name of the repository.\<close>

definition unmatched :: "repository \<Rightarrow> bool" where
  "unmatched r =
     (\<not> list_ex (\<lambda>(t, sigs). list_ex (sig_matches (file_names r)) sigs) PROJECT_SIGNATURES)"

text \<open>
  C7: a repository whose file names match no signature of any project type is
  classified as exactly \<open>["generic"]\<close>, and the classification is never empty.
\<close>

theorem detect_project_type_generic:
  "(unmatched r \<longrightarrow> detect_project_type rt r = [''generic''])
   \<and> detect_project_type rt r \<noteq> []"
proof -
  have "unmatched r \<Longrightarrow> collect_types (file_names r) PROJECT_SIGNATURES [] = []"
    unfolding unmatched_def collect_types_filter any_signature_list_ex
    by (auto simp: list_ex_iff filter_empty_conv)
  then show ?thesis
    by (auto simp: detect_project_type_def list_of_set_def Let_def)
qed

theorem detect_project_type_generic_witness:
  "unmatched notes_repo \<and> detect_project_type (sample_runtime 5) notes_repo = [''generic'']"
proof -
  have u: "unmatched notes_repo"
    by (simp add: unmatched_def notes_repo_def file_names_def PROJECT_SIGNATURES_def
        sig_matches_def suffix_to_prefix)
  with detect_project_type_generic [of notes_repo "sample_runtime 5"] show ?thesis by simp
qed

subsection \<open>Metadata\<close>

lemma lstrip_none: "lead_space s = 0 \<Longrightarrow> lstrip s = s"
  by (simp add: lstrip.simps)

lemma regex_fields_keeps [simp]:
  "md_version (regex_fields content m) = md_version m"
  "md_dependencies (regex_fields content m) = md_dependencies m"
  "md_scripts (regex_fields content m) = md_scripts m"
  by (simp_all add: regex_fields_def Let_def split: option.splits)






























text \<open>
  A malformed \<open>package.json\<close> is skipped: \<open>JSONDecodeError\<close> is named in the
  \<open>except\<close> clause of that source.
\<close>

lemma malformed_json_is_skipped:
  "get_project_metadata (sample_runtime 0) bad_json_repo [] = Inr (initial_metadata bad_json_repo)"
  by (simp add: get_project_metadata_def from_package_json_def package_json_body_def
      from_pyproject_def from_cargo_def bad_json_repo_def child_def sample_runtime_def
      sample_json_def json_desc_a_def json_scripts_def
      request_deploy_def tasks_none_def tasks_done_def)

text \<open>
  C2 is not what the code does for \<open>pyproject.toml\<close>: the \<open>except\<close> clause of that
  source names \<open>ImportError\<close> and \<open>IOError\<close> only, so the \<open>TOMLDecodeError\<close> of a
  malformed document leaves \<open>get_project_metadata\<close>. Here the text \<open>name = \<close> is no
  TOML document and the parser is available.
\<close>

theorem malformed_toml_propagates:
  "toml_loads (sample_runtime 0) ''name = '' = None
   \<and> tomllib_available (sample_runtime 0)
   \<and> get_project_metadata (sample_runtime 0) bad_toml_repo [] = Inl TOMLDecodeError"
  by (simp add: get_project_metadata_def from_package_json_def from_pyproject_def
      pyproject_body_def bad_toml_repo_def child_def sample_runtime_def sample_toml_def
      toml_full_def toml_name_only_def)

subsection \<open>The temporary directory\<close>

text \<open>
  C3 is not what the code does when the clone fails: \<open>tempfile.mkdtemp\<close> has created
  the directory, \<open>RuntimeError\<close> is raised before the \<open>try\<close> is entered, and the
  \<open>finally\<close> clause never runs. The directory is still there after the run.
\<close>

theorem temp_dir_left_after_failed_clone:
  "generate_skill (sample_runtime 0) failing_clone ''https://example.com/r.git'' None False
     \<lparr>temp_dirs = [], out_files = []\<rparr>
   = (Inl (RuntimeError ''Failed to clone https://example.com/r.git''),
      \<lparr>temp_dirs = [''/tmp/repo-skill-gen-x1''], out_files = []\<rparr>)"
  by (simp add: generate_skill_def is_url_def clone_repo_def failing_clone_def)

text \<open>
  Once the clone has succeeded the directory is removed on every way out of the block
  under \<open>try\<close>, whether it returns or raises.
\<close>

lemma temp_dirs_write_text [simp]: "temp_dirs (write_text p c w) = temp_dirs w"
  by (simp add: write_text_def)

lemma temp_dirs_touch [simp]: "temp_dirs (touch p w) = temp_dirs w"
  by (simp add: touch_def)

lemma temp_dirs_write_references [simp]:
  "temp_dirs (write_references p kfs w) = temp_dirs w"
  by (induction kfs arbitrary: w) auto

lemma temp_dirs_generate_body:
  "temp_dirs (snd (generate_body rt env r out w)) = temp_dirs w"
  by (simp add: generate_body_def Let_def split: sum.splits pyval.splits option.splits)

lemma cleanup_after_clone:
  assumes "is_url source" "clone env source = Cloned l es"
    and "fresh_temp env \<noteq> []" "fresh_temp env \<notin> set (temp_dirs w)"
  shows "temp_dirs (snd (generate_skill rt env source out False w)) = temp_dirs w"
proof -
  let ?r = "\<lparr>repo_name = ''repo'', repo_listable = l, repo_entries = es\<rparr>"
  let ?w0 = "w\<lparr>temp_dirs := fresh_temp env # temp_dirs w\<rparr>"
  have "temp_dirs (snd (generate_body rt env ?r out ?w0)) = fresh_temp env # temp_dirs w"
    by (simp add: temp_dirs_generate_body)
  with assms show ?thesis
    by (auto simp: generate_skill_def clone_repo_def Let_def split: prod.splits)
qed

subsection \<open>Entry points\<close>

text \<open>An entry point \<open>make t\<close> for one of the five common targets \<open>t\<close>.\<close>

definition is_common_make :: "string \<Rightarrow> bool" where
  "is_common_make e = (e \<in> set (map (\<lambda>t. ''make '' @ t) common_targets))"

lemma is_common_make_make:
  "is_common_make (''make '' @ t) \<longleftrightarrow> t \<in> set common_targets"
  by (auto simp: is_common_make_def)

lemma is_common_make_npm: "\<not> is_common_make (''npm run '' @ s)"
  by (auto simp: is_common_make_def common_targets_def)

lemmas is_common_make_simps [simp] =
  is_common_make_make [unfolded append_Cons append_Nil]
  is_common_make_npm [unfolded append_Cons append_Nil]

lemma executables_not_common: "e \<in> set executables \<Longrightarrow> \<not> is_common_make e"
  by (auto simp: is_common_make_def common_targets_def executables_def)

text \<open>The elements that satisfy \<open>P\<close> stand before all others.\<close>

definition fronted :: "('a \<Rightarrow> bool) \<Rightarrow> 'a list \<Rightarrow> bool" where
  "fronted P xs = (\<exists>ys zs. xs = ys @ zs \<and> list_all P ys \<and> list_all (\<lambda>z. \<not> P z) zs)"

lemma fronted_none: "list_all (\<lambda>z. \<not> P z) xs \<Longrightarrow> fronted P xs"
  unfolding fronted_def by (rule exI [of _ "[]"]) simp

lemma fronted_Cons:
  assumes "P x" "fronted P xs"
  shows "fronted P (x # xs)"
proof -
  from assms(2) obtain ys zs where "xs = ys @ zs" "list_all P ys" "list_all (\<lambda>z. \<not> P z) zs"
    unfolding fronted_def by blast
  with assms(1) have "x # xs = (x # ys) @ zs \<and> list_all P (x # ys) \<and> list_all (\<lambda>z. \<not> P z) zs"
    by simp
  then show ?thesis
    unfolding fronted_def by blast
qed

lemma fronted_append_none:
  assumes "fronted P xs" "list_all (\<lambda>z. \<not> P z) ws"
  shows "fronted P (xs @ ws)"
proof -
  from assms(1) obtain ys zs where "xs = ys @ zs" "list_all P ys" "list_all (\<lambda>z. \<not> P z) zs"
    unfolding fronted_def by blast
  with assms(2) have "xs @ ws = ys @ (zs @ ws) \<and> list_all P ys \<and> list_all (\<lambda>z. \<not> P z) (zs @ ws)"
    by simp
  then show ?thesis
    unfolding fronted_def by blast
qed

lemma fronted_snoc: "\<not> P x \<Longrightarrow> fronted P xs \<Longrightarrow> fronted P (xs @ [x])"
  by (rule fronted_append_none) simp_all

lemma fronted_take: "fronted P xs \<Longrightarrow> fronted P (take n xs)"
proof -
  assume "fronted P xs"
  then obtain ys zs where xs: "xs = ys @ zs" and ys: "list_all P ys"
    and zs: "list_all (\<lambda>z. \<not> P z) zs"
    unfolding fronted_def by blast
  have "take n xs = take n ys @ take (n - length ys) zs"
    by (simp add: xs)
  moreover have "list_all P (take n ys)"
    using ys by (auto simp: list_all_iff dest: in_set_takeD)
  moreover have "list_all (\<lambda>z. \<not> P z) (take (n - length ys) zs)"
    using zs by (auto simp: list_all_iff dest: in_set_takeD)
  ultimately show ?thesis
    unfolding fronted_def by blast
qed

lemma fronted_nth:
  assumes "fronted P xs" "i < j" "j < length xs" "P (xs ! j)"
  shows "P (xs ! i)"
proof -
  from assms(1) obtain ys zs where xs: "xs = ys @ zs" and ys: "list_all P ys"
    and zs: "list_all (\<lambda>z. \<not> P z) zs"
    unfolding fronted_def by blast
  have "j < length ys"
  proof (rule ccontr)
    assume "\<not> j < length ys"
    then have "xs ! j = zs ! (j - length ys)" "j - length ys < length zs"
      using assms(3) by (auto simp: xs nth_append)
    then have "\<not> P (xs ! j)"
      using zs by (auto simp: list_all_length)
    with assms(4) show False by simp
  qed
  with assms(2) have "xs ! i = ys ! i" "i < length ys"
    by (auto simp: xs nth_append)
  with ys show ?thesis
    by (auto simp: list_all_length)
qed

lemma fronted_add_targets:
  "fronted is_common_make eps \<Longrightarrow> fronted is_common_make (add_targets ts eps)"
proof (induction ts arbitrary: eps)
  case Nil
  then show ?case by simp
next
  case (Cons t ts)
  show ?case
  proof (cases "t \<in> set common_targets")
    case True
    with Cons.prems have "fronted is_common_make ((''make '' @ t) # eps)"
      by (intro fronted_Cons) simp_all
    with True Cons.IH show ?thesis by simp
  next
    case False
    with Cons.prems have "fronted is_common_make (eps @ [''make '' @ t])"
      by (intro fronted_snoc) simp_all
    with False Cons.IH show ?thesis by simp
  qed
qed

lemma fronted_from_makefile:
  assumes "fronted is_common_make eps" "from_makefile entries eps = Inr eps1"
  shows "fronted is_common_make eps1"
  using assms
  by (auto simp: from_makefile_def fronted_add_targets split: option.splits sum.splits if_splits)

lemma npm_not_common:
  "list_all (\<lambda>z. \<not> is_common_make z) (map ((@) ''npm run '') ks)"
  by (induction ks) auto

lemma from_scripts_shape:
  assumes "from_scripts rt entries eps = Inr eps2"
  shows "\<exists>ks. eps2 = eps @ map ((@) ''npm run '') ks"
proof (cases "\<exists>ks. scripts_body rt (the (child entries ''package.json'')) eps
    = Inr (eps @ map ((@) ''npm run '') ks) \<and> child entries ''package.json'' \<noteq> None")
  case True
  with assms show ?thesis
    by (auto simp: from_scripts_def)
next
  case False
  have "scripts_body rt f eps = Inr eps3 \<Longrightarrow> \<exists>ks. eps3 = eps @ map ((@) ''npm run '') ks"
    for f eps3
    by (auto simp: scripts_body_def bindE_def split: option.splits sum.splits)
  with assms False have "eps2 = eps"
    by (auto simp: from_scripts_def split: option.splits sum.splits if_splits)
  then show ?thesis
    by (intro exI [of _ "[]"]) simp
qed

lemma fronted_from_scripts:
  assumes "fronted is_common_make eps" "from_scripts rt entries eps = Inr eps2"
  shows "fronted is_common_make eps2"
proof -
  from assms(2) obtain ks where "eps2 = eps @ map ((@) ''npm run '') ks"
    using from_scripts_shape by blast
  with assms(1) show ?thesis
    by (simp add: fronted_append_none npm_not_common)
qed

text \<open>
  The targets that the loop of \<open>detect_entry_points\<close> goes over: the first ten that
  the regular expression finds in the \<open>Makefile\<close>, none when there is no \<open>Makefile\<close>
  or it cannot be read.
\<close>

definition listed_targets :: "repository \<Rightarrow> string list" where
  "listed_targets r =
     (case child (repo_entries r) ''Makefile'' of
        None \<Rightarrow> []
      | Some f \<Rightarrow>
          (case read_text f of
             Inl e \<Rightarrow> []
           | Inr content \<Rightarrow> take 10 (makefile_targets content)))"

text \<open>
  The names of the scripts: the keys of \<open>scripts\<close> in a \<open>package.json\<close> that can be
  read and parsed, none otherwise.
\<close>

definition script_names :: "runtime \<Rightarrow> repository \<Rightarrow> string list" where
  "script_names rt r =
     (case child (repo_entries r) ''package.json'' of
        None \<Rightarrow> []
      | Some f \<Rightarrow>
          (case read_text f of
             Inl e \<Rightarrow> []
           | Inr body \<Rightarrow>
               (case json_loads rt body of
                  None \<Rightarrow> []
                | Some pkg \<Rightarrow>
                    (case py_get pkg ''scripts'' (PDict []) of
                       Inr (PDict kvs) \<Rightarrow> map fst kvs
                     | _ \<Rightarrow> []))))"

lemma from_scripts_exact:
  assumes "from_scripts rt (repo_entries r) eps = Inr eps2"
  shows "eps2 = eps @ map ((@) ''npm run '') (script_names rt r)"
proof (cases "child (repo_entries r) ''package.json''")
  case None
  with assms show ?thesis
    by (simp add: from_scripts_def script_names_def)
next
  case (Some f)
  show ?thesis
  proof (cases "read_text f")
    case (Inl e)
    with assms Some show ?thesis
      by (auto simp: from_scripts_def script_names_def scripts_body_def split: if_splits)
  next
    case (Inr body)
    show ?thesis
    proof (cases "json_loads rt body")
      case None
      with assms Some Inr show ?thesis
        by (auto simp: from_scripts_def script_names_def scripts_body_def)
    next
      case (Some pkg)
      with assms \<open>child (repo_entries r) ''package.json'' = Some f\<close> Inr show ?thesis
        by (auto simp: from_scripts_def script_names_def scripts_body_def bindE_def
            split: sum.splits if_splits pyval.splits dest!: py_get_Inl py_keys_Inl)
    qed
  qed
qed

lemma add_targets_shape:
  "add_targets ts eps =
     map ((@) ''make '') (rev (filter (\<lambda>t. t \<in> set common_targets) ts)) @ eps
       @ map ((@) ''make '') (filter (\<lambda>t. t \<notin> set common_targets) ts)"
  by (induction ts arbitrary: eps) auto

lemma from_makefile_shape:
  assumes "from_makefile (repo_entries r) eps = Inr eps1"
  shows "eps1 = add_targets (listed_targets r) eps"
  using assms
  by (auto simp: from_makefile_def listed_targets_def split: option.splits sum.splits if_splits)

lemma count_list_append [simp]: "count_list (xs @ ys) x = count_list xs x + count_list ys x"
  by (induction xs) auto

lemma count_list_rev [simp]: "count_list (rev xs) x = count_list xs x"
  by (induction xs) auto

lemma count_list_make: "count_list (map ((@) ''make '') ts) (''make '' @ t) = count_list ts t"
  by (induction ts) auto

lemma count_list_partition:
  "count_list (filter P xs) x + count_list (filter (\<lambda>y. \<not> P y) xs) x = count_list xs x"
  by (induction xs) auto

lemma count_list_executables:
  "count_list (filter P executables) (''make '' @ t) = 0"
  by (simp add: executables_def)

lemma count_list_npm: "count_list (map ((@) ''npm run '') ks) (''make '' @ t) = 0"
  by (induction ks) auto

text \<open>
  C6, amended. Let \<open>ts\<close> be the first ten targets that the regular expression finds
  in the \<open>Makefile\<close>. The result of \<open>detect_entry_points\<close> is the first 15 elements of
  this list: \<open>make t\<close> for the targets \<open>t\<close> of \<open>ts\<close> that are one of \<open>all\<close>, \<open>clean\<close>,
  \<open>install\<close>, \<open>test\<close>, \<open>build\<close>, the latest first; then the executables that exist;
  then \<open>make t\<close> for the other targets of \<open>ts\<close>, in their order; then \<open>npm run s\<close>
  for the keys \<open>s\<close> of \<open>scripts\<close> in \<open>package.json\<close>. So the result has at most 15 elements; every entry \<open>make t\<close> of a
  common target stands before every other entry; a target after the tenth has no
  entry; and nothing is deduplicated: before the cut at 15, \<open>make t\<close> occurs in the
  list as often as \<open>t\<close> occurs in \<open>ts\<close>.
\<close>

theorem entry_points_shape:
  assumes "detect_entry_points rt r project_types = Inr eps"
  shows "eps = take 15
                 (map ((@) ''make '')
                    (rev (filter (\<lambda>t. t \<in> set common_targets) (listed_targets r)))
                  @ filter (executable_exists (repo_entries r)) executables
                  @ map ((@) ''make '')
                      (filter (\<lambda>t. t \<notin> set common_targets) (listed_targets r))
                  @ map ((@) ''npm run '') (script_names rt r))
       \<and> (\<forall>t. count_list
                 (map ((@) ''make '')
                    (rev (filter (\<lambda>t. t \<in> set common_targets) (listed_targets r)))
                  @ filter (executable_exists (repo_entries r)) executables
                  @ map ((@) ''make '')
                      (filter (\<lambda>t. t \<notin> set common_targets) (listed_targets r))
                  @ map ((@) ''npm run '') (script_names rt r))
                 (''make '' @ t)
               = count_list (listed_targets r) t)
       \<and> length (listed_targets r) \<le> 10
       \<and> length eps \<le> 15
       \<and> (\<forall>i j. i < j \<and> j < length eps \<and> is_common_make (eps ! j)
                  \<longrightarrow> is_common_make (eps ! i))"
proof -
  let ?eps0 = "filter (executable_exists (repo_entries r)) executables"
  let ?ts = "listed_targets r"
  from assms obtain eps1 eps2 where
    m: "from_makefile (repo_entries r) ?eps0 = Inr eps1" and
    s: "from_scripts rt (repo_entries r) eps1 = Inr eps2" and
    e: "eps = take 15 eps2"
    by (auto simp: detect_entry_points_def bindE_def split: sum.splits)
  let ?ks = "script_names rt r"
  have ks: "eps2 = eps1 @ map ((@) ''npm run '') ?ks"
    using s by (rule from_scripts_exact)
  let ?full = "map ((@) ''make '') (rev (filter (\<lambda>t. t \<in> set common_targets) ?ts))
      @ ?eps0 @ map ((@) ''make '') (filter (\<lambda>t. t \<notin> set common_targets) ?ts)
      @ map ((@) ''npm run '') ?ks"
  have full: "eps2 = ?full"
    using from_makefile_shape [OF m] ks by (simp add: add_targets_shape)
  have cnt: "count_list ?full (''make '' @ t) = count_list ?ts t" for t
    using count_list_partition [of "\<lambda>t. t \<in> set common_targets" ?ts t]
    by (simp add: count_list_make count_list_executables count_list_npm
        del: append.simps)
  have ten: "length ?ts \<le> 10"
    by (simp add: listed_targets_def split: option.splits sum.splits)
  have "fronted is_common_make ?eps0"
    by (intro fronted_none) (auto simp: list_all_iff executables_not_common)
  then have "fronted is_common_make eps1"
    using m by (rule fronted_from_makefile)
  then have "fronted is_common_make eps2"
    using s by (rule fronted_from_scripts)
  then have f: "fronted is_common_make eps"
    unfolding e by (rule fronted_take)
  have ord: "\<forall>i j. i < j \<and> j < length eps \<and> is_common_make (eps ! j)
      \<longrightarrow> is_common_make (eps ! i)"
    using f by (blast intro: fronted_nth)
  have len: "length eps \<le> 15"
    by (simp add: e)
  from full e cnt ten len ord show ?thesis
    by blast
qed

lemma targets_dup: "makefile_targets makefile_dup = [''test'', ''test'']"
  by (simp add: makefile_targets_def makefile_dup_def nl_def line_target_def
      is_ident_start_def is_ident_char_def List.map_filter_simps)

lemma dup_repo_entry_points:
  "detect_entry_points (sample_runtime 0) dup_repo [] = Inr [''make test'', ''make test'']"
  by (simp add: detect_entry_points_def from_makefile_def from_scripts_def dup_repo_def
      child_def executable_exists_def executables_def targets_dup common_targets_def)

text \<open>
  C6, as the specification states it, fails: a \<open>Makefile\<close> with two rules for the
  target \<open>test\<close> gives the same command twice.
\<close>

theorem entry_points_not_deduplicated:
  "detect_entry_points (sample_runtime 0) dup_repo [] = Inr [''make test'', ''make test'']
   \<and> \<not> distinct [''make test'', ''make test'']"
  by (simp add: dup_repo_entry_points)

lemma targets_three: "makefile_targets makefile_three = [''dev'', ''test'', ''all'']"
  by (simp add: makefile_targets_def makefile_three_def nl_def line_target_def
      is_ident_start_def is_ident_char_def List.map_filter_simps)

lemma make_repo_entry_points:
  "detect_entry_points (sample_runtime 0) make_repo [] =
     Inr [''make all'', ''make test'', ''main.py'', ''make dev'', ''npm run start'']"
  by (simp add: detect_entry_points_def from_makefile_def from_scripts_def scripts_body_def
      make_repo_def child_def executable_exists_def executables_def targets_three
      common_targets_def sample_runtime_def sample_json_def json_desc_a_def json_scripts_def)

lemma targets_twelve:
  "makefile_targets makefile_twelve =
     [''t0'', ''t1'', ''t2'', ''t3'', ''t4'', ''t5'', ''t6'', ''t7'', ''t8'', ''t9'',
      ''test'', ''t0'']"
  by (simp add: makefile_targets_def makefile_twelve_def nl_def line_target_def
      is_ident_start_def is_ident_char_def List.map_filter_simps)

lemma twelve_repo_entry_points:
  "detect_entry_points (sample_runtime 0) twelve_repo [] =
     Inr [''make t0'', ''make t1'', ''make t2'', ''make t3'', ''make t4'', ''make t5'',
          ''make t6'', ''make t7'', ''make t8'', ''make t9'']"
  by (simp add: detect_entry_points_def from_makefile_def from_scripts_def twelve_repo_def
      child_def executable_exists_def executables_def targets_twelve common_targets_def)

text \<open>
  The theorem at two repositories: one with the targets \<open>dev\<close>, \<open>test\<close>, \<open>all\<close>, a
  \<open>src/main.py\<close> and one script; and one whose \<open>Makefile\<close> has the twelve targets
  \<open>t0\<close> to \<open>t9\<close>, \<open>test\<close>, \<open>t0\<close>, of which the last two are not looked at.
\<close>

theorem entry_points_shape_witness:
  "detect_entry_points (sample_runtime 0) make_repo [] =
     Inr [''make all'', ''make test'', ''main.py'', ''make dev'', ''npm run start'']
   \<and> listed_targets make_repo = [''dev'', ''test'', ''all'']
   \<and> is_common_make ([''make all'', ''make test'', ''main.py'', ''make dev'', ''npm run start''] ! 1)
   \<and> is_common_make ([''make all'', ''make test'', ''main.py'', ''make dev'', ''npm run start''] ! 0)
   \<and> length [''make all'', ''make test'', ''main.py'', ''make dev'', ''npm run start''] \<le> 15
   \<and> detect_entry_points (sample_runtime 0) twelve_repo [] =
       Inr [''make t0'', ''make t1'', ''make t2'', ''make t3'', ''make t4'', ''make t5'',
            ''make t6'', ''make t7'', ''make t8'', ''make t9'']
   \<and> listed_targets twelve_repo =
       [''t0'', ''t1'', ''t2'', ''t3'', ''t4'', ''t5'', ''t6'', ''t7'', ''t8'', ''t9'']"
proof -
  let ?eps = "[''make all'', ''make test'', ''main.py'', ''make dev'', ''npm run start'']"
  note m = entry_points_shape [OF make_repo_entry_points]
  note t = entry_points_shape [OF twelve_repo_entry_points]
  have c: "is_common_make (?eps ! 1)"
    by (simp add: common_targets_def)
  have "is_common_make (?eps ! 0)"
    by (rule m [THEN conjunct2, THEN conjunct2, THEN conjunct2, THEN conjunct2, rule_format,
          of 0 1])
       (simp add: common_targets_def)
  moreover have "listed_targets make_repo = [''dev'', ''test'', ''all'']"
    by (simp add: listed_targets_def make_repo_def child_def targets_three)
  moreover have "listed_targets twelve_repo =
      [''t0'', ''t1'', ''t2'', ''t3'', ''t4'', ''t5'', ''t6'', ''t7'', ''t8'', ''t9'']"
    by (simp add: listed_targets_def twelve_repo_def child_def targets_twelve)
  moreover have "length [''make t0'', ''make t1'', ''make t2'', ''make t3'', ''make t4'',
      ''make t5'', ''make t6'', ''make t7'', ''make t8'', ''make t9''] \<le> (15 :: nat)"
    by (rule t [THEN conjunct2, THEN conjunct2, THEN conjunct2, THEN conjunct1])
  ultimately show ?thesis
    using c make_repo_entry_points twelve_repo_entry_points by simp
qed

subsection \<open>Directory tree\<close>






lemma set_sorted_entries [simp]: "set (sorted_entries es) = set es"
  by (simp add: sorted_entries_def)


















lemma sorted_nested:
  "sorted_entries [File ''c.txt'' (Text []), Dir ''a'' True [File ''b.txt'' (Text [])]]
     = [Dir ''a'' True [File ''b.txt'' (Text [])], File ''c.txt'' (Text [])]"
  by (simp add: sorted_entries_def less_eq_prod_def)

lemma sorted_single: "sorted_entries [e] = [e]"
  by (simp add: sorted_entries_def)

lemma nested_lines:
  "tree_lines nested_repo 3 1 =
     [\<lparr>line_text = connector_mid @ ''a'', line_depth = 0, line_ellipsis = False\<rparr>,
      \<lparr>line_text = extension_mid @ ''...'', line_depth = 1, line_ellipsis = True\<rparr>,
      \<lparr>line_text = ''...'', line_depth = 0, line_ellipsis = True\<rparr>]"
  by (simp add: tree_lines_def nested_repo_def sorted_nested sorted_single ignore_def Let_def)




lemma nested_tree:
  "get_directory_tree nested_repo 3 1 =
     connector_mid @ ''a'' @ [CHR 0x0A] @ extension_mid @ ''...'' @ [CHR 0x0A] @ ''...''"
  by (simp add: get_directory_tree_def nested_lines)


end
